theory Spec2Isabelle
  imports Main "HOL-Library.Multiset" "HOL-Library.Code_Target_Nat"
begin

section \<open>Strings of the engine\<close>

text \<open>
  The repository holds several generations of its dialog engine. The one verified here
  is the latest: the engine with pagination (\<open>offset\<close>, \<open>pageSize\<close>), the soft domain
  guess and the \<open>ended\<close> flag, whose public API is \<open>initDialogState\<close>,
  \<open>getInitialAssistantMessage\<close>, \<open>handleUserText\<close> and \<open>handleAction\<close>.

  The engine works on JavaScript strings, which are sequences of UTF-16 code units. A
  string is modelled as the list of its code units; \<open>asc\<close> embeds an ASCII literal, and
  the Chinese phrases of the tables are written as their code units.

  The white space of \<open>trim()\<close> and of the regular-expression class \<open>\s\<close> is the fixed
  ECMAScript set and is written out in full. The word characters of \<open>\b\<close> are the ASCII
  letters, digits and the underscore (no pattern of the engine that uses \<open>\b\<close> has the
  \<open>u\<close> flag). The Unicode property classes \<open>\p{L}\<close>, \<open>\p{N}\<close> and the case mapping of
  \<open>toLowerCase()\<close> belong to the runtime; they are written out here for ASCII, Latin-1 and
  the CJK ideograph blocks, which cover every character of the engine's own tables, and
  every other code unit counts as caseless and as neither letter nor digit. So
  \<open>isLetterOrNumber\<close> and \<open>toLowerChar\<close> are the runtime's class and mapping on the code
  units of \<open>coveredUnit\<close> only (ASCII, Latin-1, the white space, the usual general, CJK and
  full-width punctuation, and the CJK unified ideographs); on other scripts (Cyrillic,
  kana, full-width digits, letters outside the basic plane) the runtime differs, and a
  statement that depends on these two functions is made for covered text only.
\<close>

type_synonym jsstring = "nat list"

definition asc :: "string \<Rightarrow> jsstring" where
  "asc s = map of_char s"

definition isSpace :: "nat \<Rightarrow> bool" where
  "isSpace c \<longleftrightarrow>
     c \<in> set [0x09, 0x0A, 0x0B, 0x0C, 0x0D, 0x20, 0xA0, 0x1680, 0x2028, 0x2029, 0x202F,
              0x205F, 0x3000, 0xFEFF]
     \<or> (0x2000 \<le> c \<and> c \<le> 0x200A)"

definition isWordChar :: "nat \<Rightarrow> bool" where
  "isWordChar c \<longleftrightarrow>
     (0x30 \<le> c \<and> c \<le> 0x39) \<or> (0x41 \<le> c \<and> c \<le> 0x5A) \<or> c = 0x5F
     \<or> (0x61 \<le> c \<and> c \<le> 0x7A)"

definition isLetterOrNumber :: "nat \<Rightarrow> bool" where
  "isLetterOrNumber c \<longleftrightarrow>
     (0x30 \<le> c \<and> c \<le> 0x39) \<or> (0x41 \<le> c \<and> c \<le> 0x5A) \<or> (0x61 \<le> c \<and> c \<le> 0x7A)
     \<or> c \<in> set [0xAA, 0xB2, 0xB3, 0xB5, 0xB9, 0xBA, 0xBC, 0xBD, 0xBE]
     \<or> (0xC0 \<le> c \<and> c \<le> 0xFF \<and> c \<noteq> 0xD7 \<and> c \<noteq> 0xF7)
     \<or> (0x3400 \<le> c \<and> c \<le> 0x4DBF) \<or> (0x4E00 \<le> c \<and> c \<le> 0x9FFF)"

definition toLowerChar :: "nat \<Rightarrow> nat" where
  "toLowerChar c =
     (if (0x41 \<le> c \<and> c \<le> 0x5A) \<or> (0xC0 \<le> c \<and> c \<le> 0xDE \<and> c \<noteq> 0xD7) then c + 0x20 else c)"


definition toLowerCase :: "jsstring \<Rightarrow> jsstring" where
  "toLowerCase s = map toLowerChar s"

definition trim :: "jsstring \<Rightarrow> jsstring" where
  "trim s = rev (dropWhile isSpace (rev (dropWhile isSpace s)))"

text \<open>\<open>String.prototype.includes\<close>: \<open>sub\<close> occurs in \<open>s\<close> as a contiguous run.\<close>

fun startsWith :: "jsstring \<Rightarrow> jsstring \<Rightarrow> bool" where
  "startsWith s [] = True"
| "startsWith [] (p # ps) = False"
| "startsWith (c # cs) (p # ps) = (c = p \<and> startsWith cs ps)"

fun includes_js :: "jsstring \<Rightarrow> jsstring \<Rightarrow> bool" where
  "includes_js [] sub = (sub = [])"
| "includes_js (c # cs) sub = (startsWith (c # cs) sub \<or> includes_js cs sub)"

section \<open>The regular expressions of the engine\<close>

text \<open>
  Every pattern of the synonym table, of the trigger lists and of the hard domain rules
  is an alternation of literal phrases, optionally enclosed in \<open>\b(...)\b\<close> and optionally
  case-insensitive (flag \<open>i\<close>); none is global. \<open>Regex wb ic alts\<close> is such a pattern. The
  two alternatives of the source with an optional letter, \<open>bills? help\<close> and
  \<open>overdue bills?\<close>, are listed as the longer phrase followed by the shorter one, which
  is the order in which the greedy \<open>?\<close> tries them.

  Without the \<open>u\<close> flag, case-insensitive matching compares the upper-case images of two
  code units, and a non-ASCII unit never folds to an ASCII one. Every character of the
  engine's patterns is ASCII or a caseless ideograph, so a pattern letter matches exactly
  its two ASCII cases and every other pattern character matches itself only.
\<close>

datatype regex = Regex (wordb: bool) (icase: bool) (alts: "jsstring list")

definition canon :: "nat \<Rightarrow> nat" where
  "canon c = (if 0x61 \<le> c \<and> c \<le> 0x7A then c - 0x20 else c)"

fun matchLit :: "bool \<Rightarrow> jsstring \<Rightarrow> jsstring \<Rightarrow> bool" where
  "matchLit ic [] s = True"
| "matchLit ic (p # ps) [] = False"
| "matchLit ic (p # ps) (c # cs) =
     ((if ic then canon p = canon c else p = c) \<and> matchLit ic ps cs)"

text \<open>\<open>\b\<close> holds between two positions exactly one of which holds a word character;
  the start and the end of the string count as non-word.\<close>

definition wordAt :: "nat option \<Rightarrow> bool" where
  "wordAt c = (case c of None \<Rightarrow> False | Some x \<Rightarrow> isWordChar x)"

definition boundary :: "nat option \<Rightarrow> nat option \<Rightarrow> bool" where
  "boundary l r \<longleftrightarrow> wordAt l \<noteq> wordAt r"

definition headOpt :: "jsstring \<Rightarrow> nat option" where
  "headOpt s = (case s of [] \<Rightarrow> None | c # _ \<Rightarrow> Some c)"

definition lastOpt :: "nat option \<Rightarrow> jsstring \<Rightarrow> nat option" where
  "lastOpt prev s = (if s = [] then prev else Some (last s))"

text \<open>The alternatives are tried in order at one position (\<open>prev\<close> is the code unit before
  it); the result is the length of the first one that matches there.\<close>

fun firstAlt :: "bool \<Rightarrow> bool \<Rightarrow> nat option \<Rightarrow> jsstring \<Rightarrow> jsstring list \<Rightarrow> nat option" where
  "firstAlt wb ic prev s [] = None"
| "firstAlt wb ic prev s (a # as) =
     (if matchLit ic a s \<and>
         (if wb then boundary prev (headOpt s) \<and>
                     boundary (lastOpt prev (take (length a) s)) (headOpt (drop (length a) s))
          else True)
      then Some (length a)
      else firstAlt wb ic prev s as)"

text \<open>\<open>re.test(s)\<close>: some position of \<open>s\<close> matches. The scan goes from left to right.\<close>

fun testFrom :: "regex \<Rightarrow> nat option \<Rightarrow> jsstring \<Rightarrow> bool" where
  "testFrom re prev [] = (firstAlt (wordb re) (icase re) prev [] (alts re) \<noteq> None)"
| "testFrom re prev (c # cs) =
     (firstAlt (wordb re) (icase re) prev (c # cs) (alts re) \<noteq> None \<or> testFrom re (Some c) cs)"

definition test :: "regex \<Rightarrow> jsstring \<Rightarrow> bool" where
  "test re s = testFrom re None s"

text \<open>\<open>s.replace(re, norm)\<close> for a non-global pattern: the leftmost match is replaced,
  a string without a match is returned as it is. No replacement text of the engine
  contains a \<open>$\<close>.\<close>

fun replaceFrom :: "regex \<Rightarrow> jsstring \<Rightarrow> nat option \<Rightarrow> jsstring \<Rightarrow> jsstring" where
  "replaceFrom re norm prev [] =
     (case firstAlt (wordb re) (icase re) prev [] (alts re) of
        Some n \<Rightarrow> norm | None \<Rightarrow> [])"
| "replaceFrom re norm prev (c # cs) =
     (case firstAlt (wordb re) (icase re) prev (c # cs) (alts re) of
        Some n \<Rightarrow> norm @ drop n (c # cs)
      | None \<Rightarrow> c # replaceFrom re norm (Some c) cs)"

definition replace :: "jsstring \<Rightarrow> regex \<Rightarrow> jsstring \<Rightarrow> jsstring" where
  "replace s re norm = replaceFrom re norm None s"

text \<open>\<open>s.replace(/[^\p{L}\p{N}\s]+/gu, " ")\<close>: every maximal run of code units that are
  neither letters, digits nor white space becomes one space.\<close>

definition isPunct :: "nat \<Rightarrow> bool" where
  "isPunct c \<longleftrightarrow> \<not> (isLetterOrNumber c \<or> isSpace c)"

function stripPunct :: "jsstring \<Rightarrow> jsstring" where
  "stripPunct [] = []"
| "stripPunct (c # cs) =
     (if isPunct c then 0x20 # stripPunct (dropWhile isPunct cs) else c # stripPunct cs)"
  by pat_completeness auto
termination
  by (relation "measure length") (auto simp: less_Suc_eq_le length_dropWhile_le)

text \<open>\<open>s.split(/\s+/)\<close>: the pieces between the maximal runs of white space, the empty
  pieces at both ends included.\<close>

function split_ws :: "jsstring \<Rightarrow> jsstring list" where
  "split_ws s =
     (let w = takeWhile (\<lambda>c. \<not> isSpace c) s; r = dropWhile (\<lambda>c. \<not> isSpace c) s
      in if r = [] then [w] else w # split_ws (dropWhile isSpace r))"
  by pat_completeness auto
termination
proof (relation "measure length", goal_cases)
  case 1
  show ?case by simp
next
  case (2 s w r)
  have "r \<noteq> []"
    using 2 by simp
  then obtain c cs where r: "r = c # cs"
    by (cases r) simp_all
  have "\<not> \<not> isSpace (hd r)"
    using 2 hd_dropWhile[of "\<lambda>c. \<not> isSpace c" s] by simp
  then have "isSpace c"
    using r by simp
  then have "length (dropWhile isSpace r) \<le> length cs"
    using r by (simp add: length_dropWhile_le)
  moreover have "length r \<le> length s"
    using 2 by (simp add: length_dropWhile_le)
  ultimately show ?case
    using r by simp
qed

declare stripPunct.simps [simp del]
declare split_ws.simps [simp del]

section \<open>Static tables\<close>

record domain =
  did :: jsstring
  cat :: jsstring
  en :: jsstring
  zh :: jsstring

definition DEFAULT_PAGE_SIZE :: nat where
  "DEFAULT_PAGE_SIZE = 3"

definition MAX_MATCHES_CAP :: nat where
  "MAX_MATCHES_CAP = 50"

definition STOPWORDS :: "jsstring list" where
  "STOPWORDS =
    [asc ''the'', asc ''a'', asc ''an'', asc ''to'', asc ''for'', asc ''and'', asc ''or'',
     asc ''of'', asc ''in'', asc ''on'', asc ''at'', asc ''is'', asc ''are'', asc ''am'',
     asc ''i'', asc ''me'', asc ''my'', asc ''we'', asc ''our'', asc ''you'', asc ''your'',
     asc ''they'', asc ''them'', asc ''this'', asc ''that'', asc ''need'', asc ''help'',
     asc ''please'', asc ''can'', asc ''could'', asc ''want'', asc ''looking'',
     asc ''apply'', asc ''get'', asc ''with'', asc ''from'', asc ''about'', asc ''into'',
     asc ''as'', asc ''it'', asc ''im'', asc ''i'' @ [0x0027] @ asc ''m'', [0x6211],
     [0x6211, 0x4EEC], [0x4F60], [0x4F60, 0x4EEC], [0x9700, 0x8981], [0x60F3],
     [0x7533, 0x8BF7], [0x5E2E, 0x52A9], [0x600E, 0x4E48], [0x5982, 0x4F55],
     [0x6709, 0x6CA1, 0x6709], [0x53EF, 0x4EE5], [0x5417], [0x8981], [0x627E],
     [0x60F3, 0x8981], [0x4E00, 0x4E0B], [0x73B0, 0x5728], [0x8FD9, 0x4E2A], [0x90A3, 0x4E2A]]"

definition SYNONYMS :: "(regex \<times> jsstring) list" where
  "SYNONYMS =
   [(Regex True True
      [asc ''financial aid'', asc ''cash help'', asc ''money help'', asc ''no money'',
       asc ''broke'', asc ''bills help'', asc ''bill help'', asc ''overdue bills'',
       asc ''overdue bill'', asc ''arrears'', asc ''low income'', asc ''debt''],
     asc ''financial aid''),
    (Regex True True
      [asc ''housing grant'', asc ''rental support'', asc ''rent help'',
       asc ''no place to stay'', asc ''eviction'', asc ''evicted'', asc ''homeless'',
       asc ''shelter'', asc ''sleeping outside''],
     asc ''housing''),
    (Regex True True
      [asc ''health'', asc ''healthcare'', asc ''medical'', asc ''sick'', asc ''ill'',
       asc ''clinic'', asc ''doctor'', asc ''gp'', asc ''polyclinic'', asc ''medicine'',
       asc ''medication'', asc ''dental''],
     asc ''medical''),
    (Regex True True
      [asc ''hospital bill'', asc ''ward'', asc ''a&e'', asc ''emergency room'',
       asc ''cannot afford hospital'', asc ''cant afford hospital''],
     asc ''hospital bill''),
    (Regex True True
      [asc ''medical subsidy'', asc ''clinic subsidy'', asc ''medifund'', asc ''chas'',
       asc ''medisave'', asc ''medishield''],
     asc ''medical''),
    (Regex True True
      [asc ''senior support'', asc ''elderly'', asc ''caregiver'', asc ''home care''],
     asc ''seniors''),
    (Regex True True
      [asc ''disability'', asc ''wheelchair'', asc ''assistive'', asc ''pwd'',
       asc ''sgenable''],
     asc ''disability''),
    (Regex True True
      [asc ''school fees'', asc ''childcare'', asc ''preschool'', asc ''student care'',
       asc ''kifas'', asc ''ecda''],
     asc ''education''),
    (Regex True True
      [asc ''job'', asc ''employment'', asc ''unemployed'', asc ''training'',
       asc ''upskill'', asc ''skillsfuture''],
     asc ''employment''),
    (Regex True True
      [asc ''mental health'', asc ''anxiety'', asc ''depression'', asc ''counselling'',
       asc ''therapy'', asc ''stressed'', asc ''overwhelmed'', asc ''panic'', asc ''suicid''],
     asc ''mental health''),
    (Regex True True
      [asc ''legal aid'', asc ''lawyer'', asc ''divorce'', asc ''court'', asc ''legal''],
     asc ''legal''),
    (Regex False False
      [[0x7ECF, 0x6D4E, 0x63F4, 0x52A9], [0x73B0, 0x91D1, 0x8865, 0x52A9], [0x6CA1, 0x94B1],
       [0x6211, 0x5F88, 0x7A77], [0x751F, 0x6D3B, 0x8D39], [0x8D26, 0x5355],
       [0x6B20, 0x8D39], [0x8865, 0x8D34], [0x53D1, 0x653E]],
     asc ''financial aid''),
    (Regex False False
      [[0x4F4F, 0x623F], [0x79DF, 0x623F], [0x79DF, 0x91D1, 0x8865, 0x8D34],
       [0x88AB, 0x9A71, 0x9010], [0x9A71, 0x9010, 0x901A, 0x77E5],
       [0x6CA1, 0x5730, 0x65B9, 0x4F4F], [0x65E0, 0x5BB6, 0x53EF, 0x5F52], [0x6536, 0x5BB9],
       [0x9732, 0x5BBF]],
     asc ''housing''),
    (Regex False True
      [[0x5065, 0x5EB7], [0x751F, 0x75C5], [0x770B, 0x75C5], [0x533B, 0x7597],
       [0x533B, 0x836F, 0x8D39], [0x836F], [0x836F, 0x8D39], [0x592A, 0x8D35],
       [0x8BCA, 0x6240], [0x533B, 0x751F], [0x533B, 0x9662, 0x8D26, 0x5355],
       [0x4F4F, 0x9662, 0x8D39], [0x6025, 0x8BCA], asc ''A&E'', [0x793E, 0x5DE5]],
     asc ''medical''),
    (Regex False False
      [[0x957F, 0x8005], [0x8001, 0x4EBA], [0x7167, 0x62A4], [0x62A4, 0x7406],
       [0x7167, 0x62A4, 0x8005], [0x770B, 0x62A4]],
     asc ''seniors''),
    (Regex False False
      [[0x6B8B, 0x969C], [0x6B8B, 0x75BE], [0x8F6E, 0x6905],
       [0x8F85, 0x52A9, 0x5668, 0x6750], [0x52A9, 0x542C, 0x5668]],
     asc ''disability''),
    (Regex False False
      [[0x5B66, 0x8D39], [0x5E7C, 0x513F, 0x56ED], [0x6258, 0x513F],
       [0x5B66, 0x751F, 0x6258, 0x7BA1], [0x8BFE, 0x540E, 0x7167, 0x62A4]],
     asc ''education''),
    (Regex False False
      [[0x5DE5, 0x4F5C], [0x5C31, 0x4E1A], [0x5931, 0x4E1A], [0x57F9, 0x8BAD],
       [0x6280, 0x80FD], [0x8BFE, 0x7A0B, 0x8865, 0x8D34]],
     asc ''employment''),
    (Regex False False
      [[0x5FC3, 0x7406], [0x6291, 0x90C1], [0x7126, 0x8651],
       [0x538B, 0x529B, 0x5F88, 0x5927], [0x5D29, 0x6E83], [0x60F3, 0x4E0D, 0x5F00],
       [0x81EA, 0x6740], [0x8F85, 0x5BFC]],
     asc ''mental health''),
    (Regex False False
      [[0x6CD5, 0x5F8B, 0x63F4, 0x52A9], [0x79BB, 0x5A5A], [0x5F8B, 0x5E08],
       [0x6CD5, 0x5EAD], [0x6CD5, 0x5F8B]],
     asc ''legal'')]"

definition SENSITIVE_TRIGGERS :: "regex list" where
  "SENSITIVE_TRIGGERS =
   [Regex True True
      [asc ''suicide'', asc ''kill myself'', asc ''self-harm'', asc ''end my life''],
    Regex False False
      [[0x81EA, 0x6740], [0x8F7B, 0x751F], [0x60F3, 0x4E0D, 0x5F00],
       [0x4F24, 0x5BB3, 0x81EA, 0x5DF1], [0x7ED3, 0x675F, 0x751F, 0x547D]]]"

definition URGENT_TRIGGERS :: "regex list" where
  "URGENT_TRIGGERS =
   [Regex True True
      [asc ''no place to stay today'', asc ''no place to stay tonight'',
       asc ''sleeping outside'', asc ''evicted today'', asc ''urgent'', asc ''emergency'',
       asc ''tonight''],
    Regex False False
      [[0x4ECA, 0x5929, 0x6CA1, 0x5730, 0x65B9, 0x4F4F],
       [0x4ECA, 0x665A, 0x6CA1, 0x5730, 0x65B9, 0x7761], [0x7D27, 0x6025], [0x6025, 0x9700],
       [0x88AB, 0x8D76, 0x51FA, 0x6765], [0x9732, 0x5BBF], [0x9A6C, 0x4E0A, 0x9700, 0x8981]]]"

definition DOMAIN :: "domain list" where
  "DOMAIN =
   [\<lparr>did = asc ''financial'', cat = asc ''financial_assistance'', en = asc ''Financial'', zh = [0x7ECF, 0x6D4E, 0x63F4, 0x52A9]\<rparr>,
    \<lparr>did = asc ''housing'', cat = asc ''housing_assistance'', en = asc ''Housing'', zh = [0x4F4F, 0x623F]\<rparr>,
    \<lparr>did = asc ''healthcare'', cat = asc ''healthcare_support'', en = asc ''Healthcare'', zh = [0x533B, 0x7597]\<rparr>,
    \<lparr>did = asc ''seniors'', cat = asc ''elderly_support'', en = asc ''Seniors'', zh = [0x957F, 0x8005, 0x652F, 0x6301]\<rparr>,
    \<lparr>did = asc ''disability'', cat = asc ''disability_support'', en = asc ''Disability'', zh = [0x6B8B, 0x969C, 0x652F, 0x6301]\<rparr>,
    \<lparr>did = asc ''legal'', cat = asc ''legal_support'', en = asc ''Legal'', zh = [0x6CD5, 0x5F8B, 0x63F4, 0x52A9]\<rparr>,
    \<lparr>did = asc ''mental'', cat = asc ''mental_health_support'', en = asc ''Mental health'', zh = [0x5FC3, 0x7406, 0x652F, 0x6301]\<rparr>]"

definition DOMAIN_HINTS :: "(jsstring \<times> jsstring list) list" where
  "DOMAIN_HINTS =
   [(asc ''financial'',
     [asc ''financial aid'', asc ''comcare'', asc ''gstv'', asc ''assurance'', asc ''cdc'',
      asc ''workfare'', asc ''wis'', asc ''cash'', asc ''bills'']),
    (asc ''housing'',
     [asc ''housing'', asc ''rent'', asc ''rental'', asc ''hdb'', asc ''irh'', asc ''pphs'',
      asc ''eviction'', asc ''homeless'', asc ''shelter'']),
    (asc ''healthcare'',
     [asc ''medical'', asc ''clinic'', asc ''doctor'', asc ''chas'', asc ''medifund'',
      asc ''medisave'', asc ''medishield'', asc ''hospital bill'', asc ''health'']),
    (asc ''seniors'',
     [asc ''seniors'', asc ''elderly'', asc ''caregiver'', asc ''aic'',
      asc ''silver support'']),
    (asc ''disability'',
     [asc ''disability'', asc ''pwd'', asc ''sgenable'', asc ''assistive'', asc ''atf'',
      asc ''eec'']),
    (asc ''legal'',
     [asc ''legal'', asc ''lab'', asc ''lawyer'', asc ''divorce'', asc ''court'',
      asc ''legal aid'']),
    (asc ''mental'',
     [asc ''mental health'', asc ''mindline'', asc ''1771'', asc ''anxiety'',
      asc ''depression'', asc ''stressed'', asc ''overwhelmed''])]"


section \<open>Text normalisation and safety triggers\<close>

definition normalizeText :: "jsstring \<Rightarrow> jsstring" where
  "normalizeText raw = foldl (\<lambda>t (re, norm). replace t re norm) (trim raw) SYNONYMS"

definition tokenize :: "jsstring \<Rightarrow> jsstring list" where
  "tokenize raw =
     (let t = stripPunct (toLowerCase (normalizeText raw));
          parts = filter (\<lambda>w. w \<noteq> []) (split_ws t)
      in filter (\<lambda>w. w \<notin> set STOPWORDS) parts)"

definition containsAny :: "jsstring \<Rightarrow> regex list \<Rightarrow> bool" where
  "containsAny raw regexList = list_ex (\<lambda>re. test re raw) regexList"

definition domainById :: "jsstring option \<Rightarrow> domain option" where
  "domainById i = find (\<lambda>d. Some (did d) = i) DOMAIN"

section \<open>Domain detection\<close>

text \<open>Hard detection: the seven probes in their fixed order, on the normalised,
  lower-cased text.\<close>

definition detectDomainIdFromText :: "jsstring \<Rightarrow> jsstring option" where
  "detectDomainIdFromText raw =
     (let t = toLowerCase (normalizeText raw) in
      if test (Regex True False [asc ''financial aid'']) t \<or> test (Regex True False [asc ''comcare'']) t
         \<or> test (Regex False False [asc ''assurance'', asc ''gstv'', asc ''cdc vouchers'',
                                     asc ''workfare'', asc ''wis'']) t
      then Some (asc ''financial'')
      else if test (Regex True False [asc ''housing'']) t
         \<or> test (Regex False False [asc ''eviction'', asc ''evicted'', asc ''homeless'',
                                     asc ''rental'', asc ''shelter'', asc ''no place to stay'']) t
      then Some (asc ''housing'')
      else if test (Regex True False [asc ''medical'']) t \<or> test (Regex True False [asc ''health'']) t
         \<or> test (Regex False False [asc ''clinic'', asc ''doctor'', asc ''gp'', asc ''polyclinic'',
                                     asc ''chas'', asc ''medifund'', asc ''medisave'',
                                     asc ''medishield'', asc ''hospital bill'']) t
      then Some (asc ''healthcare'')
      else if test (Regex True False [asc ''seniors'']) t
         \<or> test (Regex False False [asc ''elderly'', asc ''caregiver'', asc ''silver support'',
                                     asc ''aic'']) t
      then Some (asc ''seniors'')
      else if test (Regex True False [asc ''disability'']) t
         \<or> test (Regex False False [asc ''pwd'', asc ''sgenable'', asc ''assistive'', asc ''atf'',
                                     asc ''eec'']) t
      then Some (asc ''disability'')
      else if test (Regex True False [asc ''legal'']) t
         \<or> test (Regex False False [asc ''lab'', asc ''lawyer'', asc ''divorce'', asc ''court'',
                                     asc ''legal aid'']) t
      then Some (asc ''legal'')
      else if test (Regex True False [asc ''mental health'']) t
         \<or> test (Regex False False [asc ''anxiety'', asc ''depression'', asc ''mindline'',
                                     asc ''1771'', asc ''stressed'', asc ''overwhelmed'']) t
      then Some (asc ''mental'')
      else None)"

text \<open>Soft detection. \<open>DOMAIN_HINTS[d.id] || []\<close> is the lookup \<open>hintsOf\<close>; each hint is
  itself normalised and lower-cased before it is compared; the tokens are those of the
  already normalised text.\<close>

definition hintsOf :: "jsstring \<Rightarrow> jsstring list" where
  "hintsOf i = (case map_of DOMAIN_HINTS i of None \<Rightarrow> [] | Some hs \<Rightarrow> hs)"

definition softScore :: "jsstring \<Rightarrow> jsstring list \<Rightarrow> domain \<Rightarrow> nat" where
  "softScore t tokens d =
     (let hints = hintsOf (did d);
          s1 = foldl (\<lambda>s h. if includes_js t (toLowerCase (normalizeText h)) then s + 3 else s) 0 hints;
          s2 = foldl (\<lambda>s tok. if list_ex (\<lambda>h. includes_js (toLowerCase (normalizeText h)) tok) hints
                                then s + 1 else s) s1 tokens
      in if includes_js t (did d) then s2 + 1 else s2)"

text \<open>The hint phrases of a domain as the soft score compares them: each one normalised
  and lower-cased.\<close>

definition normHints :: "jsstring \<Rightarrow> jsstring list" where
  "normHints i = map (\<lambda>h. toLowerCase (normalizeText h)) (hintsOf i)"

definition softBest :: "jsstring \<Rightarrow> jsstring list \<Rightarrow> domain list \<Rightarrow> jsstring option \<times> nat" where
  "softBest t tokens ds =
     foldl (\<lambda>best d. let s = softScore t tokens d in
                       if s > snd best then (Some (did d), s) else best) (None, 0) ds"

definition softGuessDomainId :: "jsstring \<Rightarrow> jsstring option" where
  "softGuessDomainId raw =
     (let t = toLowerCase (normalizeText raw);
          tokens = tokenize t;
          best = softBest t tokens DOMAIN
      in if snd best \<ge> 3 then fst best else None)"

section \<open>Knowledge base and retrieval\<close>

text \<open>
  The knowledge base is loaded from a JSON file that is not part of the engine; it is a
  parameter \<open>kb\<close> of every function that reads it. An absent name or summary is \<open>None\<close>,
  an absent list is the empty list (the engine reads every list as \<open>s.field || []\<close>).
  Links and contact blocks are carried into the cards unchanged.
\<close>

type_synonym link = jsstring
type_synonym contacts = "(jsstring \<times> jsstring) list"

record scheme =
  sid :: jsstring
  name_en :: "jsstring option"
  name_zh :: "jsstring option"
  summary_en :: "jsstring option"
  summary_zh :: "jsstring option"
  keywords_en :: "jsstring list"
  keywords_zh :: "jsstring list"
  eligibility_en :: "jsstring list"
  eligibility_zh :: "jsstring list"
  how_to_apply_en :: "jsstring list"
  how_to_apply_zh :: "jsstring list"
  category :: jsstring
  official_links :: "link list"

record entry_point =
  eid :: jsstring
  ep_name_en :: "jsstring option"
  ep_name_zh :: "jsstring option"
  ep_links :: "link list"
  ep_contacts :: "contacts option"

record kb =
  schemes :: "scheme list"
  entry_points :: "entry_point list"

text \<open>\<open>x || ""\<close> on an optional string; \<open>xs.join(" ")\<close>.\<close>

definition orEmpty :: "jsstring option \<Rightarrow> jsstring" where
  "orEmpty x = (case x of None \<Rightarrow> [] | Some s \<Rightarrow> s)"

fun join :: "jsstring \<Rightarrow> jsstring list \<Rightarrow> jsstring" where
  "join sep [] = []"
| "join sep [x] = x"
| "join sep (x # y # ys) = x @ sep @ join sep (y # ys)"

text \<open>\<open>filter(Boolean)\<close> drops the absent and the empty strings.\<close>

definition schemeTextForMatch :: "scheme \<Rightarrow> jsstring" where
  "schemeTextForMatch s =
     (let all = filter (\<lambda>x. x \<noteq> [])
                  (map orEmpty [name_en s, name_zh s, summary_en s, summary_zh s]
                   @ keywords_en s @ keywords_zh s @ eligibility_en s @ eligibility_zh s
                   @ how_to_apply_en s @ how_to_apply_zh s)
      in toLowerCase (normalizeText (join (asc '' '') all)))"

text \<open>\<open>categoryBoost && scheme.category === categoryBoost\<close>: an absent and an empty hint
  are falsy.\<close>

definition boostApplies :: "jsstring option \<Rightarrow> scheme \<Rightarrow> bool" where
  "boostApplies categoryBoost scheme =
     (case categoryBoost of None \<Rightarrow> False | Some b \<Rightarrow> b \<noteq> [] \<and> category scheme = b)"

definition scoreScheme :: "jsstring list \<Rightarrow> scheme \<Rightarrow> jsstring option \<Rightarrow> nat" where
  "scoreScheme queryTokens scheme categoryBoost =
     (let hay = schemeTextForMatch scheme;
          score1 = foldl (\<lambda>score tok. if includes_js hay tok then score + 3 else score) 0 queryTokens;
          score2 = (if boostApplies categoryBoost scheme then score1 + 10 else score1);
          nameHay = toLowerCase (normalizeText
                      (orEmpty (name_en scheme) @ asc '' '' @ orEmpty (name_zh scheme)));
          score3 = foldl (\<lambda>score tok. if includes_js nameHay tok then score + 2 else score)
                     score2 queryTokens
      in if length queryTokens \<le> 2 \<and> boostApplies categoryBoost scheme then score3 + 2 else score3)"

text \<open>
  \<open>Array.prototype.sort\<close> is stable, and the comparator \<open>b.score - a.score\<close> orders by
  descending score: the result is the one stable arrangement by the key \<open>- score\<close>,
  which \<open>sort_key\<close> computes.
\<close>

record retrieval =
  matched :: "(scheme \<times> nat) list"
  lowConfidence :: bool
  bestScore :: nat

definition categoryOf :: "domain option \<Rightarrow> jsstring option" where
  "categoryOf d = (case d of None \<Rightarrow> None | Some x \<Rightarrow> if cat x = [] then None else Some (cat x))"

definition scoredSchemes :: "kb \<Rightarrow> jsstring \<Rightarrow> jsstring option \<Rightarrow> (scheme \<times> nat) list" where
  "scoredSchemes k query domainId =
     (let d = domainById domainId; tokens = tokenize query
      in sort_key (\<lambda>x. - int (snd x))
           (map (\<lambda>s. (s, scoreScheme tokens s (categoryOf d))) (schemes k)))"

definition retrieveAllSchemes :: "kb \<Rightarrow> jsstring \<Rightarrow> jsstring option \<Rightarrow> retrieval" where
  "retrieveAllSchemes k query domainId =
     (let scored = scoredSchemes k query domainId;
          m = take MAX_MATCHES_CAP (filter (\<lambda>x. snd x > 0) scored);
          best = (case scored of [] \<Rightarrow> 0 | x # _ \<Rightarrow> snd x)
      in \<lparr>matched = m, lowConfidence = (best < 5), bestScore = best\<rparr>)"

section \<open>Messages\<close>

text \<open>
  An assistant message has a role, a display text, result cards and quick replies. The
  wording of a display text is not modelled: \<open>msg_text\<close> has one constructor for each text
  or template of the engine, with the language flag (\<open>lang === "zh"\<close>) and the values
  spliced into the template. A quick reply keeps its \<open>id\<close> and its \<open>action\<close>; its
  \<open>label\<close> and \<open>sendText\<close> are display strings fixed by the id and the language.
\<close>

datatype step = choose_domain | choose_focus | refine_and_show

datatype empathy =
  EmpFinancial | EmpHousing | EmpHealthcare | EmpMental | EmpSeniors | EmpDisability
| EmpLegal | EmpDefault

datatype clarifier = ClarHealthcare | ClarHousing | ClarFinancial | ClarMental | ClarDefault

datatype msg_text =
  TextRevived bool
| TextGuide bool
| TextSensitive bool
| TextUrgent bool
| TextLetsStartWith bool empathy "jsstring option"
| TextNotSure bool
| TextNoMatch bool
| TextNoMore bool
| TextPossiblyRelevant bool "jsstring option"
| TextMostRelevant bool "jsstring option"
| TextEnd bool
| TextWelcome bool
| TextEscalate bool
| TextBackToStart bool
| TextStartingWith bool empathy "jsstring option"
| TextClarify bool clarifier
| TextDescribeFirst bool

record action =
  atype :: "jsstring option"
  adomainId :: "jsstring option"
  afocus :: "jsstring option"
  atext :: "jsstring option"

record quick_reply =
  qid :: jsstring
  qaction :: action

record card =
  cid :: jsstring
  title :: "jsstring option"
  summary :: "jsstring option"
  eligibility :: "jsstring list"
  steps :: "jsstring list"
  links :: "link list"
  contacts :: "contacts option"
  cfocus :: jsstring

record message =
  role :: jsstring
  mtext :: msg_text
  cards :: "card list"
  quickReplies :: "quick_reply list"

definition act :: "jsstring \<Rightarrow> action" where
  "act t = \<lparr>atype = Some t, adomainId = None, afocus = None, atext = None\<rparr>"

definition setDomain :: "jsstring \<Rightarrow> action" where
  "setDomain d = \<lparr>atype = Some (asc ''SET_DOMAIN''), adomainId = Some d, afocus = None, atext = None\<rparr>"

definition setFocus :: "jsstring \<Rightarrow> action" where
  "setFocus f = \<lparr>atype = Some (asc ''SET_FOCUS''), adomainId = None, afocus = Some f, atext = None\<rparr>"

definition addQuery :: "jsstring \<Rightarrow> action" where
  "addQuery t = \<lparr>atype = Some (asc ''ADD_QUERY''), adomainId = None, afocus = None, atext = Some t\<rparr>"

definition isZh :: "jsstring \<Rightarrow> bool" where
  "isZh lang \<longleftrightarrow> lang = asc ''zh''"

definition truthy :: "jsstring option \<Rightarrow> bool" where
  "truthy x = (case x of None \<Rightarrow> False | Some s \<Rightarrow> s \<noteq> [])"

definition langPick :: "jsstring \<Rightarrow> jsstring option \<Rightarrow> jsstring option \<Rightarrow> jsstring option" where
  "langPick lang e z =
     (if isZh lang then (if truthy z then z else e) else (if truthy e then e else z))"

definition formatScheme :: "scheme \<Rightarrow> jsstring \<Rightarrow> jsstring \<Rightarrow> card" where
  "formatScheme s lang fo =
     \<lparr>cid = sid s,
      title = langPick lang (name_en s) (name_zh s),
      summary = langPick lang (summary_en s) (summary_zh s),
      eligibility = (if isZh lang then eligibility_zh s else eligibility_en s),
      steps = (if isZh lang then how_to_apply_zh s else how_to_apply_en s),
      links = take 3 (official_links s),
      contacts = None,
      cfocus = fo\<rparr>"

definition entryPointsCards :: "kb \<Rightarrow> jsstring \<Rightarrow> card list" where
  "entryPointsCards k lang =
     map (\<lambda>ep. \<lparr>cid = eid ep,
                  title = langPick lang (ep_name_en ep) (ep_name_zh ep),
                  summary = Some [],
                  eligibility = [],
                  steps = [],
                  links = ep_links ep,
                  contacts = ep_contacts ep,
                  cfocus = asc ''entry''\<rparr>) (entry_points k)"

definition makeQuickReplies :: "(jsstring \<times> action) list \<Rightarrow> quick_reply list" where
  "makeQuickReplies items = map (\<lambda>(i, a). \<lparr>qid = i, qaction = a\<rparr>) items"

definition baseNavItems :: "(jsstring \<times> action) list" where
  "baseNavItems = [(asc ''back_topics'', act (asc ''BACK_TOPICS'')), (asc ''restart'', act (asc ''RESTART''))]"

definition endItem :: "jsstring \<times> action" where
  "endItem = (asc ''end'', act (asc ''END''))"

definition topicQuickReplies :: "jsstring \<Rightarrow> quick_reply list" where
  "topicQuickReplies lang =
     makeQuickReplies
       (map (\<lambda>d. (asc ''topic_'' @ did d, setDomain (did d))) DOMAIN
        @ [(asc ''urgent'', act (asc ''URGENT'')), (asc ''end'', act (asc ''END''))])"

definition focusItems :: "(jsstring \<times> action) list" where
  "focusItems =
     [(asc ''overview'', setFocus (asc ''overview'')),
      (asc ''eligibility'', setFocus (asc ''eligibility'')),
      (asc ''steps'', setFocus (asc ''steps''))]"

definition focusQuickReplies :: "jsstring \<Rightarrow> quick_reply list" where
  "focusQuickReplies lang = makeQuickReplies (focusItems @ baseNavItems @ [endItem])"

definition empathyStart :: "jsstring option \<Rightarrow> empathy" where
  "empathyStart domainId =
     (if domainId = Some (asc ''financial'') then EmpFinancial
      else if domainId = Some (asc ''housing'') then EmpHousing
      else if domainId = Some (asc ''healthcare'') then EmpHealthcare
      else if domainId = Some (asc ''mental'') then EmpMental
      else if domainId = Some (asc ''seniors'') then EmpSeniors
      else if domainId = Some (asc ''disability'') then EmpDisability
      else if domainId = Some (asc ''legal'') then EmpLegal
      else EmpDefault)"

definition askOneClarifier :: "jsstring option \<Rightarrow> clarifier" where
  "askOneClarifier domainId =
     (if domainId = Some (asc ''healthcare'') then ClarHealthcare
      else if domainId = Some (asc ''housing'') then ClarHousing
      else if domainId = Some (asc ''financial'') then ClarFinancial
      else if domainId = Some (asc ''mental'') then ClarMental
      else ClarDefault)"

definition domainPresets :: "jsstring option \<Rightarrow> jsstring \<Rightarrow> quick_reply list" where
  "domainPresets domainId lang =
     (let z = isZh lang in
      makeQuickReplies
       ((if domainId = Some (asc ''financial'') then
           [(asc ''daily'', addQuery (if z then [0x751F, 0x6D3B, 0x8D39] @ asc '' '' @ [0x98DF, 0x7269]
                                      else asc ''daily expenses food'')),
            (asc ''bills'', addQuery (if z then [0x8D26, 0x5355] @ asc '' '' @ [0x6C34, 0x7535, 0x8D39]
                                      else asc ''bills utilities'')),
            (asc ''rent'', addQuery (if z then [0x79DF, 0x91D1] else asc ''rent''))]
         else if domainId = Some (asc ''housing'') then
           [(asc ''no_place'', act (asc ''URGENT'')),
            (asc ''rental'', addQuery (if z then [0x516C, 0x5171, 0x79DF, 0x8D41] @ asc '' '' @ [0x79DF, 0x623F]
                                       else asc ''public rental'')),
            (asc ''temp'', addQuery (if z then [0x4E34, 0x65F6, 0x5B89, 0x7F6E] @ asc '' shelter''
                                     else asc ''temporary shelter''))]
         else if domainId = Some (asc ''healthcare'') then
           [(asc ''clinic'', addQuery (if z then asc ''CHAS '' @ [0x95E8, 0x8BCA] @ asc '' '' @ [0x8BCA, 0x6240]
                                       else asc ''CHAS clinic outpatient'')),
            (asc ''hospital'', addQuery (if z then [0x533B, 0x9662, 0x8D26, 0x5355] @ asc '' ''
                                                 @ [0x4ED8, 0x4E0D, 0x8D77] @ asc '' MediFund''
                                         else asc ''hospital bill MediFund'')),
            (asc ''insurance'', addQuery (if z then asc ''MediShield Life '' @ [0x4FDD, 0x8D39]
                                          else asc ''MediShield Life premiums''))]
         else if domainId = Some (asc ''seniors'') then
           [(asc ''cash'', addQuery (if z then [0x73B0, 0x91D1, 0x8865, 0x52A9] @ asc '' Silver Support''
                                     else asc ''cash support Silver Support'')),
            (asc ''care'', addQuery (if z then [0x7167, 0x62A4, 0x670D, 0x52A1] @ asc '' AIC''
                                     else asc ''care services AIC'')),
            (asc ''caregiver'', addQuery (if z then [0x7167, 0x62A4, 0x8005] @ asc '' '' @ [0x652F, 0x6301]
                                          else asc ''caregiver support''))]
         else if domainId = Some (asc ''disability'') then
           [(asc ''assistive'', addQuery (if z then [0x8F85, 0x52A9, 0x5668, 0x6750] @ asc '' ATF''
                                          else asc ''assistive technology fund ATF'')),
            (asc ''jobs'', addQuery (if z then [0x6B8B, 0x969C] @ asc '' '' @ [0x5C31, 0x4E1A]
                                     else asc ''disability employment''))]
         else if domainId = Some (asc ''legal'') then
           [(asc ''legal_aid'', addQuery (if z then [0x6CD5, 0x5F8B, 0x63F4, 0x52A9] @ asc '' LAB''
                                          else asc ''legal aid LAB'')),
            (asc ''family'', addQuery (if z then [0x79BB, 0x5A5A] @ asc '' '' @ [0x5BB6, 0x5EAD]
                                       else asc ''divorce family law''))]
         else if domainId = Some (asc ''mental'') then
           [(asc ''talk'', addQuery (if z then [0x5FC3, 0x7406, 0x652F, 0x6301] @ asc '' '' @ [0x503E, 0x8BC9]
                                     else asc ''mental health support talk'')),
            (asc ''urgent_mental'', act (asc ''SENSITIVE''))]
         else [])
        @ baseNavItems @ [endItem]))"

definition noMoreResultsMessage :: "jsstring \<Rightarrow> jsstring option \<Rightarrow> message" where
  "noMoreResultsMessage lang domainId =
     \<lparr>role = asc ''assistant'', mtext = TextNoMore (isZh lang), cards = [],
      quickReplies = makeQuickReplies ([(asc ''escalate'', act (asc ''ESCALATE''))] @ baseNavItems @ [endItem])\<rparr>"

definition endConversationMessage :: "jsstring \<Rightarrow> message" where
  "endConversationMessage lang =
     \<lparr>role = asc ''assistant'', mtext = TextEnd (isZh lang), cards = [],
      quickReplies = makeQuickReplies baseNavItems\<rparr>"

text \<open>The results for the current page (\<open>offset\<close>, \<open>pageSize\<close>) of the ranked list.\<close>

definition buildResultsMessage ::
  "kb \<Rightarrow> jsstring \<Rightarrow> jsstring option \<Rightarrow> jsstring \<Rightarrow> jsstring \<Rightarrow> nat \<Rightarrow> nat \<Rightarrow> message" where
  "buildResultsMessage k lang domainId fo query off psize =
     (let z = isZh lang;
          dom = domainById domainId;
          r = retrieveAllSchemes k query domainId;
          total = length (matched r)
      in if total = 0 then
           \<lparr>role = asc ''assistant'', mtext = TextNoMatch z, cards = entryPointsCards k lang,
            quickReplies = makeQuickReplies ([(asc ''rephrase'', act (asc ''NOOP''))] @ baseNavItems @ [endItem])\<rparr>
         else if off \<ge> total then noMoreResultsMessage lang domainId
         else
           (let page = map fst (take psize (drop off (matched r)));
                hasMore = (off + psize < total);
                label = langPick lang (map_option en dom) (map_option zh dom);
                intro = (if lowConfidence r then TextPossiblyRelevant z label
                         else TextMostRelevant z label);
                focusChips = focusItems @ (if hasMore then [(asc ''more'', act (asc ''MORE_RESULTS''))] else [])
            in \<lparr>role = asc ''assistant'', mtext = intro,
                cards = map (\<lambda>s. formatScheme s lang fo) page,
                quickReplies = makeQuickReplies (focusChips @ baseNavItems @ [endItem])\<rparr>))"

definition urgentMessage :: "kb \<Rightarrow> jsstring \<Rightarrow> message" where
  "urgentMessage k lang =
     \<lparr>role = asc ''assistant'', mtext = TextUrgent (isZh lang), cards = entryPointsCards k lang,
      quickReplies = topicQuickReplies lang\<rparr>"

definition sensitiveMessage :: "kb \<Rightarrow> jsstring \<Rightarrow> message" where
  "sensitiveMessage k lang =
     \<lparr>role = asc ''assistant'', mtext = TextSensitive (isZh lang), cards = entryPointsCards k lang,
      quickReplies = topicQuickReplies lang\<rparr>"

section \<open>The dialog state machine\<close>

record dialog_state =
  lang :: jsstring
  step :: step
  domainId :: "jsstring option"
  focus :: jsstring
  lastQuery :: jsstring
  offset :: nat
  pageSize :: nat
  ended :: bool

text \<open>Reading a property of \<open>null\<close> throws; the exception is the only error of the engine.\<close>

datatype error = TypeError

definition initDialogState :: "jsstring \<Rightarrow> dialog_state" where
  "initDialogState l =
     \<lparr>lang = l, step = choose_domain, domainId = None, focus = asc ''overview'', lastQuery = [],
      offset = 0, pageSize = DEFAULT_PAGE_SIZE, ended = False\<rparr>"

definition getInitialAssistantMessage :: "jsstring \<Rightarrow> message" where
  "getInitialAssistantMessage l =
     \<lparr>role = asc ''assistant'', mtext = TextWelcome (isZh l), cards = [],
      quickReplies = topicQuickReplies l\<rparr>"

definition handleUserText ::
  "kb \<Rightarrow> dialog_state \<Rightarrow> jsstring option \<Rightarrow> error + dialog_state \<times> message" where
  "handleUserText k state userText =
     (let l = lang state;
          raw = trim (orEmpty userText);
          z = isZh l
      in if ended state then
           Inr (initDialogState l,
                \<lparr>role = asc ''assistant'', mtext = TextRevived z, cards = [],
                 quickReplies = topicQuickReplies l\<rparr>)
         else if raw = [] then
           Inr (state,
                \<lparr>role = asc ''assistant'', mtext = TextGuide z, cards = [],
                 quickReplies = (if step state = choose_domain then topicQuickReplies l
                                 else domainPresets (domainId state) l)\<rparr>)
         else if containsAny raw SENSITIVE_TRIGGERS then
           Inr (state\<lparr>step := choose_domain, domainId := None, lastQuery := [], offset := 0\<rparr>,
                sensitiveMessage k l)
         else if containsAny raw URGENT_TRIGGERS then
           Inr (state\<lparr>step := choose_domain, domainId := None, lastQuery := [], offset := 0\<rparr>,
                urgentMessage k l)
         else
           (let detectedHard = detectDomainIdFromText raw;
                detectedDomain = (if truthy detectedHard then detectedHard else softGuessDomainId raw)
            in if step state = choose_domain then
                 (if truthy detectedDomain then
                    (case domainById detectedDomain of
                       None \<Rightarrow> Inl TypeError
                     | Some d \<Rightarrow>
                         Inr (state\<lparr>step := choose_focus, domainId := detectedDomain, offset := 0\<rparr>,
                              \<lparr>role = asc ''assistant'',
                               mtext = TextLetsStartWith z (empathyStart detectedDomain)
                                         (langPick l (Some (en d)) (Some (zh d))),
                               cards = [], quickReplies = focusQuickReplies l\<rparr>))
                  else
                    Inr (state,
                         \<lparr>role = asc ''assistant'', mtext = TextNotSure z, cards = [],
                          quickReplies = topicQuickReplies l\<rparr>))
               else if step state = choose_focus then
                 (let next = state\<lparr>step := refine_and_show, lastQuery := raw, offset := 0\<rparr>
                  in Inr (next, buildResultsMessage k l (domainId next) (focus next) raw
                                  (offset next) (pageSize next)))
               else
                 (let next = state\<lparr>step := refine_and_show, lastQuery := raw, offset := 0\<rparr>
                  in Inr (next, buildResultsMessage k l (domainId next) (focus next) (lastQuery next)
                                  (offset next) (pageSize next)))))"

text \<open>The action is dispatched on its string tag; \<open>None\<close> is a missing action or a missing
  \<open>type\<close>, and the empty tag is falsy too.\<close>

definition handleAction ::
  "kb \<Rightarrow> dialog_state \<Rightarrow> action option \<Rightarrow> error + dialog_state \<times> message option" where
  "handleAction k state action =
     (let l = lang state; z = isZh l in
      case action of
        None \<Rightarrow> Inr (state, None)
      | Some a \<Rightarrow>
         (case atype a of
            None \<Rightarrow> Inr (state, None)
          | Some ty \<Rightarrow>
             if ty = [] then Inr (state, None)
             else if ty = asc ''RESTART'' then
               Inr (initDialogState l, Some (getInitialAssistantMessage l))
             else if ty = asc ''END'' then
               Inr (state\<lparr>ended := True\<rparr>, Some (endConversationMessage l))
             else if ty = asc ''ESCALATE'' then
               Inr (state,
                    Some \<lparr>role = asc ''assistant'', mtext = TextEscalate z, cards = [],
                          quickReplies = makeQuickReplies (baseNavItems @ [endItem])\<rparr>)
             else if ty = asc ''BACK_TOPICS'' then
               Inr (state\<lparr>step := choose_domain, domainId := None, lastQuery := [], offset := 0,
                           ended := False\<rparr>,
                    Some \<lparr>role = asc ''assistant'', mtext = TextBackToStart z, cards = [],
                          quickReplies = topicQuickReplies l\<rparr>)
             else if ty = asc ''URGENT'' then
               Inr (state\<lparr>step := choose_domain, domainId := None, lastQuery := [], offset := 0,
                           ended := False\<rparr>,
                    Some (urgentMessage k l))
             else if ty = asc ''SENSITIVE'' then
               Inr (state\<lparr>step := choose_domain, domainId := None, lastQuery := [], offset := 0,
                           ended := False\<rparr>,
                    Some (sensitiveMessage k l))
             else if ty = asc ''SET_DOMAIN'' then
               (case domainById (adomainId a) of
                  None \<Rightarrow> Inl TypeError
                | Some d \<Rightarrow>
                    Inr (state\<lparr>step := choose_focus, domainId := adomainId a, lastQuery := [],
                                offset := 0, ended := False\<rparr>,
                         Some \<lparr>role = asc ''assistant'',
                               mtext = TextStartingWith z (empathyStart (adomainId a))
                                         (langPick l (Some (en d)) (Some (zh d))),
                               cards = [], quickReplies = focusQuickReplies l\<rparr>))
             else if ty = asc ''SET_FOCUS'' then
               (let s = state\<lparr>focus := (if truthy (afocus a) then orEmpty (afocus a) else asc ''overview''),
                               offset := 0\<rparr>
                in if step s = refine_and_show \<and> lastQuery s \<noteq> [] then
                     Inr (s, Some (buildResultsMessage k l (domainId s) (focus s) (lastQuery s)
                                     (offset s) (pageSize s)))
                   else
                     Inr (s\<lparr>step := refine_and_show\<rparr>,
                          Some \<lparr>role = asc ''assistant'',
                                mtext = TextClarify z (askOneClarifier (domainId s)),
                                cards = [], quickReplies = domainPresets (domainId s) l\<rparr>))
             else if ty = asc ''ADD_QUERY'' then
               (let added = trim (orEmpty (atext a));
                    q = (if lastQuery state \<noteq> [] then trim (lastQuery state @ asc '' '' @ added) else added);
                    s = state\<lparr>step := refine_and_show, lastQuery := q, offset := 0\<rparr>
                in Inr (s, Some (buildResultsMessage k l (domainId s) (focus s) (lastQuery s)
                                   (offset s) (pageSize s))))
             else if ty = asc ''MORE_RESULTS'' then
               (if lastQuery state = [] then
                  Inr (state,
                       Some \<lparr>role = asc ''assistant'', mtext = TextDescribeFirst z, cards = [],
                             quickReplies = domainPresets (domainId state) l\<rparr>)
                else
                  (let nextOffset = offset state
                         + (if pageSize state = 0 then DEFAULT_PAGE_SIZE else pageSize state);
                       s = state\<lparr>offset := nextOffset\<rparr>
                   in Inr (s, Some (buildResultsMessage k l (domainId s) (focus s) (lastQuery s)
                                      (offset s) (pageSize s)))))
             else Inr (state, None)))"

text \<open>The states a conversation can be in: the initial state of some language, and every
  state returned by a turn on a reachable state.\<close>

inductive reachable :: "kb \<Rightarrow> dialog_state \<Rightarrow> bool" for k :: kb where
  init: "reachable k (initDialogState l)"
| text_turn: "reachable k s \<Longrightarrow> handleUserText k s userText = Inr (s', m) \<Longrightarrow> reachable k s'"
| action_turn: "reachable k s \<Longrightarrow> handleAction k s a = Inr (s', mo) \<Longrightarrow> reachable k s'"

text \<open>\<open>n\<close> successive MORE_RESULTS actions from a state: the final state and the messages
  emitted on the way, or \<open>None\<close> when one of the turns throws or emits no message.\<close>

fun showMore :: "kb \<Rightarrow> nat \<Rightarrow> dialog_state \<Rightarrow> (dialog_state \<times> message list) option" where
  "showMore k 0 s = Some (s, [])"
| "showMore k (Suc n) s =
     (case handleAction k s (Some (act (asc ''MORE_RESULTS''))) of
        Inr (s', Some m) \<Rightarrow>
          (case showMore k n s' of Some (s'', ms) \<Rightarrow> Some (s'', m # ms) | None \<Rightarrow> None)
      | _ \<Rightarrow> None)"

section \<open>Example data\<close>

text \<open>A small knowledge base and a few states, used to run the engine on concrete inputs.\<close>

definition emptyScheme :: scheme where
  "emptyScheme =
     \<lparr>sid = [], name_en = None, name_zh = None, summary_en = None, summary_zh = None,
      keywords_en = [], keywords_zh = [], eligibility_en = [], eligibility_zh = [],
      how_to_apply_en = [], how_to_apply_zh = [], category = [], official_links = []\<rparr>"

definition exampleSchemes :: "scheme list" where
  "exampleSchemes =
     [emptyScheme\<lparr>sid := asc ''s1'', name_en := Some (asc ''rent aid''),
                   category := asc ''housing_assistance''\<rparr>,
      emptyScheme\<lparr>sid := asc ''s2'', name_en := Some (asc ''x card''),
                   category := asc ''healthcare_support''\<rparr>,
      emptyScheme\<lparr>sid := asc ''s3'', name_en := Some (asc ''x plan''),
                   category := asc ''healthcare_support''\<rparr>,
      emptyScheme\<lparr>sid := asc ''s4'', name_en := Some (asc ''y plan''),
                   category := asc ''healthcare_support''\<rparr>,
      emptyScheme\<lparr>sid := asc ''s5'', name_en := Some (asc ''z plan''),
                   category := asc ''healthcare_support''\<rparr>]"

definition exampleKb :: kb where
  "exampleKb =
     \<lparr>schemes = exampleSchemes,
      entry_points = [\<lparr>eid = asc ''e1'', ep_name_en = Some (asc ''hotline''), ep_name_zh = None,
                       ep_links = [], ep_contacts = Some [(asc ''hotline'', asc ''1771'')]\<rparr>]\<rparr>"

definition endedState :: dialog_state where
  "endedState =
     \<lparr>lang = asc ''en'', step = refine_and_show, domainId = Some (asc ''mental''),
      focus = asc ''overview'', lastQuery = asc ''talk'', offset = 3, pageSize = 3, ended = True\<rparr>"

definition browsingState :: dialog_state where
  "browsingState =
     \<lparr>lang = asc ''en'', step = refine_and_show, domainId = Some (asc ''healthcare''),
      focus = asc ''overview'', lastQuery = asc ''x'', offset = 0, pageSize = 3, ended = False\<rparr>"

definition pagedState :: dialog_state where
  "pagedState =
     \<lparr>lang = asc ''en'', step = refine_and_show, domainId = None, focus = asc ''overview'',
      lastQuery = asc ''x'', offset = 3, pageSize = 3, ended = False\<rparr>"

definition vagueState :: dialog_state where
  "vagueState =
     \<lparr>lang = asc ''en'', step = refine_and_show, domainId = None, focus = asc ''overview'',
      lastQuery = asc ''q'', offset = 0, pageSize = 3, ended = False\<rparr>"

section \<open>Basic facts\<close>

lemma asc_eq_iff [simp]: "asc a = asc b \<longleftrightarrow> a = b"
  unfolding asc_def using inj_of_char[where ?'a = nat] by (simp add: inj_map_eq_map)

lemma asc_Nil_iff [simp]: "asc a = [] \<longleftrightarrow> a = []" "[] = asc a \<longleftrightarrow> a = []"
  by (auto simp: asc_def)


section \<open>Restart, no-op and reviving actions\<close>

text \<open>
  C8. For every prior state, \<open>handleAction\<close> on an action of type RESTART returns exactly
  the fresh initial state of the state's language and the welcome message of that
  language, whatever the other fields of the state (and of the action) are.
\<close>

theorem restart_returns_initial:
  "handleAction k s (Some (a\<lparr>atype := Some (asc ''RESTART'')\<rparr>))
     = Inr (initDialogState (lang s), Some (getInitialAssistantMessage (lang s)))"
  by (simp add: handleAction_def Let_def)

text \<open>
  C9. A missing action, an action without a type (absent or empty), and an action whose
  type is none of the ten handled tags (NOOP and every unknown tag) leave the state as it
  is and produce no message; nothing is thrown.
\<close>

theorem unrecognized_action_is_noop:
  assumes "case action of
             None \<Rightarrow> True
           | Some a \<Rightarrow> (case atype a of
                          None \<Rightarrow> True
                        | Some ty \<Rightarrow> ty \<notin> set [asc ''RESTART'', asc ''END'', asc ''ESCALATE'',
                                                   asc ''BACK_TOPICS'', asc ''URGENT'', asc ''SENSITIVE'',
                                                   asc ''SET_DOMAIN'', asc ''SET_FOCUS'', asc ''ADD_QUERY'',
                                                   asc ''MORE_RESULTS''])"
  shows "handleAction k s action = Inr (s, None)"
proof (cases action)
  case None
  then show ?thesis by (simp add: handleAction_def)
next
  case (Some a)
  show ?thesis
  proof (cases "atype a")
    case None
    with Some show ?thesis by (simp add: handleAction_def)
  next
    case (Some ty)
    with \<open>action = Some a\<close> assms show ?thesis
      by (simp add: handleAction_def Let_def)
  qed
qed

theorem unrecognized_action_is_noop_witness:
  "handleAction exampleKb browsingState None = Inr (browsingState, None)
   \<and> handleAction exampleKb browsingState (Some (act [])) = Inr (browsingState, None)
   \<and> handleAction exampleKb browsingState (Some (act (asc ''NOOP''))) = Inr (browsingState, None)
   \<and> handleAction exampleKb browsingState (Some (act (asc ''SHARE''))) = Inr (browsingState, None)"
  using unrecognized_action_is_noop[of None exampleKb browsingState]
        unrecognized_action_is_noop[of "Some (act [])" exampleKb browsingState]
        unrecognized_action_is_noop[of "Some (act (asc ''NOOP''))" exampleKb browsingState]
        unrecognized_action_is_noop[of "Some (act (asc ''SHARE''))" exampleKb browsingState]
  by (simp add: act_def)

text \<open>
  C10 (as amended). BACK_TOPICS, URGENT and SENSITIVE, and SET_DOMAIN with the id of one
  of the seven domains, each return a state whose \<open>ended\<close> flag is false, together with a
  message: a session closed by END is open again after any of them.
\<close>

theorem reviving_actions_clear_ended:
  assumes "atype a = Some ty"
    and "ty \<in> set [asc ''BACK_TOPICS'', asc ''URGENT'', asc ''SENSITIVE'']
         \<or> ty = asc ''SET_DOMAIN'' \<and> adomainId a \<in> set (map (\<lambda>d. Some (did d)) DOMAIN)"
  shows "\<exists>s' m. handleAction k s (Some a) = Inr (s', Some m) \<and> \<not> ended s'"
proof -
  have known: "domainById (adomainId a) \<noteq> None"
    if "adomainId a \<in> set (map (\<lambda>d. Some (did d)) DOMAIN)"
    using that by (auto simp: domainById_def find_None_iff)
  from assms(2) show ?thesis
  proof
    assume "ty \<in> set [asc ''BACK_TOPICS'', asc ''URGENT'', asc ''SENSITIVE'']"
    with assms(1) show ?thesis
      by (auto simp: handleAction_def Let_def)
  next
    assume sd: "ty = asc ''SET_DOMAIN'' \<and> adomainId a \<in> set (map (\<lambda>d. Some (did d)) DOMAIN)"
    then obtain d where "domainById (adomainId a) = Some d"
      using known by blast
    with sd assms(1) show ?thesis
      by (simp add: handleAction_def Let_def)
  qed
qed

theorem reviving_actions_clear_ended_witness:
  "(\<exists>s' m. handleAction exampleKb endedState (Some (act (asc ''BACK_TOPICS''))) = Inr (s', Some m)
            \<and> \<not> ended s')
   \<and> (\<exists>s' m. handleAction exampleKb endedState (Some (setDomain (asc ''legal''))) = Inr (s', Some m)
            \<and> \<not> ended s')"
proof -
  have t1: "atype (act (asc ''BACK_TOPICS'')) = Some (asc ''BACK_TOPICS'')"
    by (simp add: act_def)
  have h1: "asc ''BACK_TOPICS'' \<in> set [asc ''BACK_TOPICS'', asc ''URGENT'', asc ''SENSITIVE'']
            \<or> asc ''BACK_TOPICS'' = asc ''SET_DOMAIN''
              \<and> adomainId (act (asc ''BACK_TOPICS'')) \<in> set (map (\<lambda>d. Some (did d)) DOMAIN)"
    by simp
  have t2: "atype (setDomain (asc ''legal'')) = Some (asc ''SET_DOMAIN'')"
    by (simp add: setDomain_def)
  have "Some (asc ''legal'') \<in> set (map (\<lambda>d. Some (did d)) DOMAIN)"
    by (simp add: DOMAIN_def)
  then have h2: "asc ''SET_DOMAIN'' \<in> set [asc ''BACK_TOPICS'', asc ''URGENT'', asc ''SENSITIVE'']
            \<or> asc ''SET_DOMAIN'' = asc ''SET_DOMAIN''
              \<and> adomainId (setDomain (asc ''legal'')) \<in> set (map (\<lambda>d. Some (did d)) DOMAIN)"
    by (simp add: setDomain_def)
  show ?thesis
    using reviving_actions_clear_ended[OF t1 h1, of exampleKb endedState]
          reviving_actions_clear_ended[OF t2 h2, of exampleKb endedState]
    by blast
qed

theorem set_domain_unknown_id_counterexample:
  "handleAction exampleKb endedState (Some (setDomain (asc ''transport''))) = Inl TypeError"
  by (simp add: handleAction_def Let_def setDomain_def domainById_def DOMAIN_def)

section \<open>Safety triggers in free text\<close>






section \<open>The pagination cursor\<close>

lemma handleUserText_cursor:
  assumes "handleUserText k s userText = Inr (s', m)"
    and "pageSize s = DEFAULT_PAGE_SIZE" and "pageSize s dvd offset s"
  shows "pageSize s' = DEFAULT_PAGE_SIZE \<and> pageSize s' dvd offset s'"
  using assms
  by (auto simp: handleUserText_def Let_def initDialogState_def
           split: if_splits option.splits)

lemma handleAction_cursor:
  assumes "handleAction k s a = Inr (s', mo)"
    and "pageSize s = DEFAULT_PAGE_SIZE" and "pageSize s dvd offset s"
  shows "pageSize s' = DEFAULT_PAGE_SIZE \<and> pageSize s' dvd offset s'"
  using assms
  by (auto simp: handleAction_def Let_def initDialogState_def DEFAULT_PAGE_SIZE_def
           split: if_splits option.splits)

lemma handleUserText_offset:
  assumes "handleUserText k s userText = Inr (s', m)"
  shows "offset s' = 0 \<or> offset s' = offset s"
  using assms
  by (auto simp: handleUserText_def Let_def initDialogState_def
           split: if_splits option.splits)

lemma handleAction_offset:
  assumes "handleAction k s a = Inr (s', mo)" and "pageSize s \<noteq> 0"
  shows "offset s' = 0 \<or> offset s' = offset s \<or> offset s' = offset s + pageSize s"
  using assms
  by (auto simp: handleAction_def Let_def initDialogState_def
           split: if_splits option.splits)

text \<open>
  C5 (as amended). In every state reachable from an initial state by free-text turns and
  action turns the page size is still 3 and the offset is a multiple of the page size: a
  turn from such a state never changes the page size, and it leaves the offset as it is,
  resets it to 0 or (MORE_RESULTS only) adds the page size to it.
\<close>

theorem offset_multiple_of_pageSize:
  assumes "reachable k s"
  shows "pageSize s = 3 \<and> (\<exists>n. offset s = n * pageSize s)
         \<and> (\<forall>userText s' m. handleUserText k s userText = Inr (s', m) \<longrightarrow>
                pageSize s' = pageSize s \<and> (offset s' = 0 \<or> offset s' = offset s))
         \<and> (\<forall>a s' mo. handleAction k s a = Inr (s', mo) \<longrightarrow>
                pageSize s' = pageSize s
                \<and> (offset s' = 0 \<or> offset s' = offset s \<or> offset s' = offset s + pageSize s))"
proof -
  from assms have "pageSize s = DEFAULT_PAGE_SIZE \<and> pageSize s dvd offset s"
  proof (induction rule: reachable.induct)
    case (init l)
    show ?case by (simp add: initDialogState_def)
  next
    case (text_turn s userText s' m)
    then show ?case using handleUserText_cursor by blast
  next
    case (action_turn s a s' mo)
    then show ?case using handleAction_cursor by blast
  qed
  then have inv: "pageSize s = DEFAULT_PAGE_SIZE" "pageSize s dvd offset s"
    by blast+
  then have a: "pageSize s = 3 \<and> (\<exists>n. offset s = n * pageSize s)"
    by (auto simp: DEFAULT_PAGE_SIZE_def dvd_def mult.commute)
  have b: "pageSize s' = pageSize s \<and> (offset s' = 0 \<or> offset s' = offset s)"
    if "handleUserText k s userText = Inr (s', m)" for userText s' m
    using handleUserText_cursor[OF that inv] handleUserText_offset[OF that] inv by simp
  have c: "pageSize s' = pageSize s
           \<and> (offset s' = 0 \<or> offset s' = offset s \<or> offset s' = offset s + pageSize s)"
    if "handleAction k s ac = Inr (s', mo)" for ac s' mo
    using handleAction_cursor[OF that inv] handleAction_offset[OF that] inv
    by (simp add: DEFAULT_PAGE_SIZE_def)
  from a b c show ?thesis
    by blast
qed

lemma trim_x: "trim (orEmpty (Some (asc ''x''))) = asc ''x''"
  by code_simp

lemma pagedState_reachable: "reachable exampleKb pagedState"
proof -
  have r0: "reachable exampleKb (initDialogState (asc ''en''))"
    by (rule reachable.init)
  have "handleAction exampleKb (initDialogState (asc ''en'')) (Some (addQuery (asc ''x'')))
          = Inr (pagedState\<lparr>offset := 0\<rparr>,
                 Some (buildResultsMessage exampleKb (asc ''en'') None (asc ''overview'') (asc ''x'') 0 3))"
    using trim_x
    by (simp add: handleAction_def Let_def addQuery_def initDialogState_def pagedState_def
                  DEFAULT_PAGE_SIZE_def)
  with r0 have r1: "reachable exampleKb (pagedState\<lparr>offset := 0\<rparr>)"
    using reachable.action_turn by blast
  have "handleAction exampleKb (pagedState\<lparr>offset := 0\<rparr>) (Some (act (asc ''MORE_RESULTS'')))
          = Inr (pagedState,
                 Some (buildResultsMessage exampleKb (asc ''en'') None (asc ''overview'') (asc ''x'') 3 3))"
    by (simp add: handleAction_def Let_def act_def pagedState_def)
  with r1 show ?thesis
    using reachable.action_turn by blast
qed

theorem offset_multiple_of_pageSize_witness:
  "reachable exampleKb pagedState \<and> pageSize pagedState = 3
   \<and> (\<exists>n. offset pagedState = n * pageSize pagedState)"
  using offset_multiple_of_pageSize[OF pagedState_reachable] pagedState_reachable by blast

theorem end_keeps_offset_counterexample:
  "reachable exampleKb pagedState
   \<and> handleAction exampleKb pagedState (Some (act (asc ''END'')))
       = Inr (pagedState\<lparr>ended := True\<rparr>, Some (endConversationMessage (asc ''en'')))
   \<and> offset pagedState = 3 \<and> pageSize pagedState = 3
   \<and> offset (pagedState\<lparr>ended := True\<rparr>) = 3"
  using pagedState_reachable
  by (simp add: handleAction_def Let_def act_def pagedState_def)

section \<open>Scoring and retrieval\<close>

lemma foldl_count:
  "foldl (\<lambda>score tok. if P tok then score + c else score) a toks
     = a + c * length (filter P toks)"
  by (induction toks arbitrary: a) simp_all







lemma scored_as_map:
  "scoredSchemes k query dId
     = sort_key (\<lambda>x. - int (snd x))
         (map (\<lambda>s. (s, scoreScheme (tokenize query) s (categoryOf (domainById dId)))) (schemes k))"
  by (simp add: scoredSchemes_def Let_def)

lemma sorted_desc_head_max:
  assumes "sorted (map (\<lambda>x. - int (snd x)) (y # ys))" and "x \<in> set (y # ys)"
  shows "snd x \<le> (snd y :: nat)"
  using assms by auto

text \<open>
  C3. For every query and domain id, with \<open>sc s\<close> the score of scheme \<open>s\<close> for the query's
  tokens and the domain's category: the matches are the first 50 entries of a list
  \<open>ranked\<close> that holds exactly the knowledge-base schemes of strictly positive score (each
  with its score, as often as it occurs in the knowledge base), in descending order of
  score, schemes of equal score in their knowledge-base order; and \<open>lowConfidence\<close> holds
  exactly when every scheme scores below 5, \<open>bestScore\<close> being the greatest score (0 for an
  empty knowledge base).
\<close>

theorem retrieveAllSchemes_ranking:
  fixes k query dId
  defines "sc \<equiv> \<lambda>s. scoreScheme (tokenize query) s (categoryOf (domainById dId))"
  defines "r \<equiv> retrieveAllSchemes k query dId"
  shows "\<exists>ranked.
           matched r = take 50 ranked
           \<and> mset ranked = mset (map (\<lambda>s. (s, sc s)) (filter (\<lambda>s. sc s > 0) (schemes k)))
           \<and> sorted_wrt (\<lambda>x y. snd x \<ge> snd y) ranked
           \<and> (\<forall>v. filter (\<lambda>x. snd x = v) ranked
                    = map (\<lambda>s. (s, sc s)) (filter (\<lambda>s. sc s = v \<and> v > 0) (schemes k)))
           \<and> length (matched r) \<le> 50
           \<and> (lowConfidence r \<longleftrightarrow> (\<forall>s \<in> set (schemes k). sc s < 5))
           \<and> bestScore r = Max (insert 0 (sc ` set (schemes k)))"
proof -
  define pairs where "pairs = map (\<lambda>s. (s, sc s)) (schemes k)"
  define scored where "scored = sort_key (\<lambda>x. - int (snd x)) pairs"
  define ranked where "ranked = filter (\<lambda>x. snd x > 0) scored"
  have scored_eq: "scoredSchemes k query dId = scored"
    by (simp add: scored_as_map scored_def pairs_def sc_def)
  have m: "matched r = take 50 ranked"
    by (simp add: r_def retrieveAllSchemes_def Let_def scored_eq ranked_def MAX_MATCHES_CAP_def)
  have "filter (\<lambda>x. snd x > 0) pairs = map (\<lambda>s. (s, sc s)) (filter (\<lambda>s. sc s > 0) (schemes k))"
    by (simp add: pairs_def filter_map comp_def)
  then have "ranked = sort_key (\<lambda>x. - int (snd x))
                        (map (\<lambda>s. (s, sc s)) (filter (\<lambda>s. sc s > 0) (schemes k)))"
    by (simp add: ranked_def scored_def filter_sort)
  then have ms: "mset ranked = mset (map (\<lambda>s. (s, sc s)) (filter (\<lambda>s. sc s > 0) (schemes k)))"
    by (simp only: mset_sort)
  have "sorted (map (\<lambda>x. - int (snd x)) scored)"
    unfolding scored_def by (rule sorted_sort_key)
  then have "sorted_wrt (\<lambda>x y. snd x \<ge> snd y) scored"
    by (simp add: sorted_wrt_map)
  then have so: "sorted_wrt (\<lambda>x y. snd x \<ge> snd y) ranked"
    unfolding ranked_def by (rule sorted_wrt_filter)
  have st: "filter (\<lambda>x. snd x = v) ranked
              = map (\<lambda>s. (s, sc s)) (filter (\<lambda>s. sc s = v \<and> v > 0) (schemes k))" for v
  proof -
    have "filter (\<lambda>x. snd x = v) ranked = filter (\<lambda>x. v > 0) (filter (\<lambda>x. snd x = v) scored)"
      by (auto simp: ranked_def intro: filter_cong)
    also have "filter (\<lambda>x. snd x = v) scored = filter (\<lambda>x. - int (snd x) = - int v) scored"
      by (auto intro: filter_cong)
    also have "\<dots> = filter (\<lambda>x. - int (snd x) = - int v) pairs"
      unfolding scored_def by (rule sort_key_stable)
    also have "filter (\<lambda>x. v > 0) \<dots> = map (\<lambda>s. (s, sc s)) (filter (\<lambda>s. sc s = v \<and> v > 0) (schemes k))"
      by (simp add: pairs_def filter_map comp_def conj_commute)
    finally show ?thesis .
  qed
  have len: "length (matched r) \<le> 50"
    by (simp add: m)
  have best: "bestScore r = (case scored of [] \<Rightarrow> 0 | x # _ \<Rightarrow> snd x)"
    by (simp add: r_def retrieveAllSchemes_def Let_def scored_eq)
  have low: "lowConfidence r \<longleftrightarrow> bestScore r < 5"
    by (simp add: r_def retrieveAllSchemes_def Let_def)
  have set_scored: "set scored = set pairs"
    by (simp add: scored_def)
  have bmax: "bestScore r = Max (insert 0 (sc ` set (schemes k)))"
  proof (cases scored)
    case Nil
    then have "schemes k = []"
      using set_scored by (simp add: pairs_def)
    with Nil best show ?thesis by simp
  next
    case (Cons y ys)
    have "sorted (map (\<lambda>x. - int (snd x)) scored)"
      unfolding scored_def by (rule sorted_sort_key)
    then have srt: "sorted (map (\<lambda>x. - int (snd x)) (y # ys))"
      unfolding Cons .
    have ub: "snd x \<le> snd y" if "x \<in> set pairs" for x
    proof -
      have "x \<in> set (y # ys)"
        using that set_scored Cons by simp
      then show ?thesis
        by (rule sorted_desc_head_max[OF srt])
    qed
    have "y \<in> set pairs"
      using set_scored Cons by auto
    then have yin: "snd y \<in> sc ` set (schemes k)"
      by (auto simp: pairs_def)
    have "Max (insert 0 (sc ` set (schemes k))) = snd y"
    proof (rule Max_eqI)
      show "finite (insert 0 (sc ` set (schemes k)))" by simp
      show "snd y \<in> insert 0 (sc ` set (schemes k))" using yin by simp
      fix v assume "v \<in> insert 0 (sc ` set (schemes k))"
      then consider "v = 0" | s where "s \<in> set (schemes k)" "v = sc s"
        by auto
      then show "v \<le> snd y"
      proof cases
        case 1
        then show ?thesis by simp
      next
        case 2
        then have "(s, v) \<in> set pairs"
          by (auto simp: pairs_def)
        then show ?thesis
          using ub[of "(s, v)"] by simp
      qed
    qed
    with best Cons show ?thesis by simp
  qed
  have lowc: "lowConfidence r \<longleftrightarrow> (\<forall>s \<in> set (schemes k). sc s < 5)"
    unfolding low bmax by (subst Max_less_iff) auto
  from m ms so st len lowc bmax show ?thesis
    by blast
qed

lemma example_score:
  "scoreScheme (tokenize (asc ''x'')) (exampleSchemes ! 1)
     (categoryOf (domainById (Some (asc ''healthcare'')))) = 17"
  by code_simp

theorem retrieveAllSchemes_ranking_witness:
  "exampleSchemes ! 1 \<in> set (schemes exampleKb)
   \<and> \<not> lowConfidence (retrieveAllSchemes exampleKb (asc ''x'') (Some (asc ''healthcare'')))
   \<and> length (matched (retrieveAllSchemes exampleKb (asc ''x'') (Some (asc ''healthcare'')))) \<le> 50"
proof -
  have i: "exampleSchemes ! 1 \<in> set (schemes exampleKb)"
    by (simp add: exampleKb_def exampleSchemes_def)
  from retrieveAllSchemes_ranking[of exampleKb "asc ''x''" "Some (asc ''healthcare'')"]
  have "lowConfidence (retrieveAllSchemes exampleKb (asc ''x'') (Some (asc ''healthcare'')))
          \<longleftrightarrow> (\<forall>s \<in> set (schemes exampleKb).
                 scoreScheme (tokenize (asc ''x'')) s (categoryOf (domainById (Some (asc ''healthcare'')))) < 5)"
    and "length (matched (retrieveAllSchemes exampleKb (asc ''x'') (Some (asc ''healthcare'')))) \<le> 50"
    by blast+
  with i example_score show ?thesis
    by fastforce
qed

section \<open>Pagination\<close>

lemma more_results_step:
  assumes "lastQuery s \<noteq> []" and "pageSize s > 0"
  shows "handleAction k s (Some (act (asc ''MORE_RESULTS'')))
           = Inr (s\<lparr>offset := offset s + pageSize s\<rparr>,
                  Some (buildResultsMessage k (lang s) (domainId s) (focus s) (lastQuery s)
                          (offset s + pageSize s) (pageSize s)))"
  using assms by (simp add: handleAction_def Let_def act_def)

lemma showMore_run:
  assumes "lastQuery s \<noteq> []" and "pageSize s > 0"
  shows "showMore k n s
           = Some (s\<lparr>offset := offset s + n * pageSize s\<rparr>,
                   map (\<lambda>i. buildResultsMessage k (lang s) (domainId s) (focus s) (lastQuery s)
                               (offset s + (i + 1) * pageSize s) (pageSize s)) [0..<n])"
  using assms
proof (induction n arbitrary: s)
  case 0
  show ?case by simp
next
  case (Suc n)
  let ?s' = "s\<lparr>offset := offset s + pageSize s\<rparr>"
  have st: "handleAction k s (Some (act (asc ''MORE_RESULTS'')))
              = Inr (?s', Some (buildResultsMessage k (lang s) (domainId s) (focus s) (lastQuery s)
                                  (offset s + pageSize s) (pageSize s)))"
    using Suc.prems by (rule more_results_step)
  have ih: "showMore k n ?s'
              = Some (?s'\<lparr>offset := offset ?s' + n * pageSize ?s'\<rparr>,
                      map (\<lambda>i. buildResultsMessage k (lang ?s') (domainId ?s') (focus ?s') (lastQuery ?s')
                                  (offset ?s' + (i + 1) * pageSize ?s') (pageSize ?s')) [0..<n])"
    using Suc.prems by (intro Suc.IH) simp_all
  have shift: "map (\<lambda>i. buildResultsMessage k (lang s) (domainId s) (focus s) (lastQuery s)
                            (offset s + (i + 1) * pageSize s) (pageSize s)) [0..<Suc n]
               = buildResultsMessage k (lang s) (domainId s) (focus s) (lastQuery s)
                   (offset s + pageSize s) (pageSize s)
                 # map (\<lambda>i. buildResultsMessage k (lang s) (domainId s) (focus s) (lastQuery s)
                              (offset s + pageSize s + (i + 1) * pageSize s) (pageSize s)) [0..<n]"
    by (simp only: upt_conv_Cons[of 0 "Suc n"] map_Suc_upt[symmetric] list.map)
       (simp add: comp_def algebra_simps)
  have ih': "showMore k n ?s'
              = Some (s\<lparr>offset := offset s + pageSize s + n * pageSize s\<rparr>,
                      map (\<lambda>i. buildResultsMessage k (lang s) (domainId s) (focus s) (lastQuery s)
                                  (offset s + pageSize s + (i + 1) * pageSize s) (pageSize s)) [0..<n])"
    using ih by simp
  show ?case
    unfolding shift by (simp add: st ih' add.assoc)
qed

lemma page_cards:
  assumes "matched (retrieveAllSchemes k q d) \<noteq> []"
  shows "cards (buildResultsMessage k l d f q off p)
           = map (\<lambda>x. formatScheme x l f)
               (take p (drop off (map fst (matched (retrieveAllSchemes k q d)))))"
  using assms
  by (simp add: buildResultsMessage_def Let_def noMoreResultsMessage_def take_map drop_map)

lemma concat_pages:
  "concat (map (\<lambda>i. take p (drop (i * p) xs)) [0..<n]) = take (n * p) xs"
proof (induction n)
  case 0
  show ?case by simp
next
  case (Suc n)
  have "Suc n * p = n * p + p"
    by simp
  then have "take (Suc n * p) xs = take (n * p) xs @ take p (drop (n * p) xs)"
    by (simp only: take_add)
  with Suc show ?case by simp
qed

lemma run_cards:
  assumes "matched (retrieveAllSchemes k q d) \<noteq> []"
  shows "concat (map cards (map (\<lambda>i. buildResultsMessage k l d f q (off + (i + 1) * p) p) [0..<n]))
           = map (\<lambda>x. formatScheme x l f)
               (take (n * p) (drop (off + p) (map fst (matched (retrieveAllSchemes k q d)))))"
proof -
  let ?R = "map fst (matched (retrieveAllSchemes k q d))"
  have "concat (map cards (map (\<lambda>i. buildResultsMessage k l d f q (off + (i + 1) * p) p) [0..<n]))
          = concat (map (\<lambda>i. map (\<lambda>x. formatScheme x l f) (take p (drop (i * p) (drop (off + p) ?R)))) [0..<n])"
    by (simp add: comp_def page_cards[OF assms] ac_simps)
  also have "\<dots> = map (\<lambda>x. formatScheme x l f)
                      (concat (map (\<lambda>i. take p (drop (i * p) (drop (off + p) ?R))) [0..<n]))"
    by (simp add: map_concat comp_def)
  finally show ?thesis
    by (simp only: concat_pages)
qed

lemma ranked_distinct:
  assumes "distinct (schemes k)"
  shows "distinct (map fst (matched (retrieveAllSchemes k q d)))"
proof -
  let ?pairs = "map (\<lambda>s. (s, scoreScheme (tokenize q) s (categoryOf (domainById d)))) (schemes k)"
  let ?scored = "sort_key (\<lambda>x. - int (snd x)) ?pairs"
  have "mset (map fst ?scored) = mset (map fst ?pairs)"
    by (simp only: mset_map mset_sort)
  moreover have "distinct (map fst ?pairs)"
    using assms by (simp add: comp_def)
  ultimately have "distinct (map fst ?scored)"
    by (metis mset_eq_imp_distinct_iff)
  then have "distinct (map fst (filter (\<lambda>x. snd x > 0) ?scored))"
    by (rule distinct_map_filter)
  then have "distinct (take 50 (map fst (filter (\<lambda>x. snd x > 0) ?scored)))"
    by (rule distinct_take)
  then show ?thesis
    by (simp add: retrieveAllSchemes_def scoredSchemes_def Let_def MAX_MATCHES_CAP_def take_map)
qed

text \<open>
  C2 (as amended). For a state holding a non-empty \<open>lastQuery\<close> and a positive \<open>pageSize\<close>:
  each MORE_RESULTS action advances \<open>offset\<close> by exactly \<open>pageSize\<close> and renders the page
  at the new offset for the unchanged query and domain. When the ranked list that
  \<open>retrieveAllSchemes\<close> returns for that query and domain is empty, every such message is
  the zero-match fallback with the entry-point cards. When it is not empty, the card pages
  of \<open>n\<close> successive MORE_RESULTS actions are, concatenated, the next \<open>n * pageSize\<close>
  positions of the ranked list after the page already shown (so, from offset 0 and with
  the first page in front, a prefix of the ranked list, every position rendered once, and
  no scheme twice when the knowledge base lists none twice); a page at an offset below the
  total is never empty; and at an offset that reaches or exceeds the total the message is
  the distinct "no more results" message, which has no cards and offers escalation.
\<close>

theorem more_results_pagination:
  fixes k s
  defines "ranked \<equiv> map fst (matched (retrieveAllSchemes k (lastQuery s) (domainId s)))"
  defines "page \<equiv> buildResultsMessage k (lang s) (domainId s) (focus s) (lastQuery s)"
  defines "fmt \<equiv> \<lambda>x. formatScheme x (lang s) (focus s)"
  assumes "lastQuery s \<noteq> []" and "pageSize s > 0"
  shows "handleAction k s (Some (act (asc ''MORE_RESULTS'')))
           = Inr (s\<lparr>offset := offset s + pageSize s\<rparr>, Some (page (offset s + pageSize s) (pageSize s)))
         \<and> (\<forall>n. showMore k n s
                  = Some (s\<lparr>offset := offset s + n * pageSize s\<rparr>,
                          map (\<lambda>i. page (offset s + (i + 1) * pageSize s) (pageSize s)) [0..<n]))
         \<and> (if ranked = []
             then \<forall>off. mtext (page off (pageSize s)) = TextNoMatch (isZh (lang s))
                        \<and> cards (page off (pageSize s)) = entryPointsCards k (lang s)
             else (\<forall>n. concat (map cards (map (\<lambda>i. page (offset s + (i + 1) * pageSize s) (pageSize s)) [0..<n]))
                          = map fmt (take (n * pageSize s) (drop (offset s + pageSize s) ranked)))
                  \<and> (\<forall>n. concat (map cards (map (\<lambda>i. page (i * pageSize s) (pageSize s)) [0..<Suc n]))
                          = map fmt (take (Suc n * pageSize s) ranked))
                  \<and> (\<forall>off. off < length ranked \<longrightarrow> cards (page off (pageSize s)) \<noteq> [])
                  \<and> (\<forall>off. off \<ge> length ranked \<longrightarrow>
                        page off (pageSize s) = noMoreResultsMessage (lang s) (domainId s)))
         \<and> (if distinct (schemes k) then distinct ranked else True)
         \<and> mtext (noMoreResultsMessage (lang s) (domainId s)) = TextNoMore (isZh (lang s))
         \<and> cards (noMoreResultsMessage (lang s) (domainId s)) = []
         \<and> list_ex (\<lambda>r. atype (qaction r) = Some (asc ''ESCALATE''))
                    (quickReplies (noMoreResultsMessage (lang s) (domainId s)))"
proof -
  have dist: "if distinct (schemes k) then distinct ranked else True"
    unfolding ranked_def using ranked_distinct by simp
  let ?M = "matched (retrieveAllSchemes k (lastQuery s) (domainId s))"
  have step: "handleAction k s (Some (act (asc ''MORE_RESULTS'')))
           = Inr (s\<lparr>offset := offset s + pageSize s\<rparr>, Some (page (offset s + pageSize s) (pageSize s)))"
    unfolding page_def using assms(4,5) by (rule more_results_step)
  have run: "showMore k n s
                  = Some (s\<lparr>offset := offset s + n * pageSize s\<rparr>,
                          map (\<lambda>i. page (offset s + (i + 1) * pageSize s) (pageSize s)) [0..<n])" for n
    unfolding page_def using assms(4,5) by (rule showMore_run)
  have none: "mtext (page off (pageSize s)) = TextNoMatch (isZh (lang s))
              \<and> cards (page off (pageSize s)) = entryPointsCards k (lang s)" if "ranked = []" for off
    using that by (simp add: page_def ranked_def buildResultsMessage_def Let_def)
  have some: "concat (map cards (map (\<lambda>i. page (off + (i + 1) * pageSize s) (pageSize s)) [0..<n]))
                = map fmt (take (n * pageSize s) (drop (off + pageSize s) ranked))"
    if "ranked \<noteq> []" for n off
  proof -
    from that have "?M \<noteq> []" by (simp add: ranked_def)
    then show ?thesis
      unfolding page_def fmt_def ranked_def by (rule run_cards)
  qed
  have first: "concat (map cards (map (\<lambda>i. page (i * pageSize s) (pageSize s)) [0..<Suc n]))
                 = map fmt (take (Suc n * pageSize s) ranked)" if "ranked \<noteq> []" for n
  proof -
    from that have ne: "?M \<noteq> []" by (simp add: ranked_def)
    have "map (\<lambda>i. page (i * pageSize s) (pageSize s)) [0..<Suc n]
            = page 0 (pageSize s) # map (\<lambda>i. page (0 + (i + 1) * pageSize s) (pageSize s)) [0..<n]"
      by (simp only: upt_conv_Cons[of 0 "Suc n"] map_Suc_upt[symmetric] list.map) (simp add: comp_def)
    then have "concat (map cards (map (\<lambda>i. page (i * pageSize s) (pageSize s)) [0..<Suc n]))
                 = cards (page 0 (pageSize s))
                   @ concat (map cards (map (\<lambda>i. page (0 + (i + 1) * pageSize s) (pageSize s)) [0..<n]))"
      by (simp only: list.map concat.simps)
    also have "\<dots> = map fmt (take (pageSize s) ranked)
                     @ map fmt (take (n * pageSize s) (drop (pageSize s) ranked))"
      using some[OF that, of 0 n] page_cards[OF ne, of "lang s" "focus s" 0 "pageSize s"]
      by (simp add: page_def fmt_def ranked_def)
    also have "\<dots> = map fmt (take (pageSize s + n * pageSize s) ranked)"
      by (simp only: take_add map_append)
    finally show ?thesis by simp
  qed
  have inside: "cards (page off (pageSize s)) \<noteq> []" if "ranked \<noteq> []" and "off < length ranked" for off
  proof -
    from that have ne: "?M \<noteq> []" by (simp add: ranked_def)
    show ?thesis
      using that assms(5) page_cards[OF ne, of "lang s" "focus s" off "pageSize s"]
      by (simp add: page_def ranked_def)
  qed
  have beyond: "page off (pageSize s) = noMoreResultsMessage (lang s) (domainId s)"
    if "ranked \<noteq> []" and "off \<ge> length ranked" for off
    using that by (simp add: page_def ranked_def buildResultsMessage_def Let_def)
  have esc: "mtext (noMoreResultsMessage (lang s) (domainId s)) = TextNoMore (isZh (lang s))
         \<and> cards (noMoreResultsMessage (lang s) (domainId s)) = []
         \<and> list_ex (\<lambda>r. atype (qaction r) = Some (asc ''ESCALATE''))
                    (quickReplies (noMoreResultsMessage (lang s) (domainId s)))"
    by (simp add: noMoreResultsMessage_def makeQuickReplies_def act_def)
  show ?thesis
  proof (cases "ranked = []")
    case True
    with step run none esc dist show ?thesis by simp
  next
    case False
    with step run some[OF False] first[OF False] inside[OF False] beyond[OF False] esc dist
    show ?thesis by simp
  qed
qed

lemma second_page_example:
  "map cid (cards (buildResultsMessage exampleKb (asc ''en'') (Some (asc ''healthcare'')) (asc ''overview'')
                     (asc ''x'') 3 3)) = [asc ''s5'']"
  by code_simp

theorem more_results_pagination_witness:
  "lastQuery browsingState \<noteq> [] \<and> pageSize browsingState > 0
   \<and> handleAction exampleKb browsingState (Some (act (asc ''MORE_RESULTS'')))
       = Inr (browsingState\<lparr>offset := 3\<rparr>,
              Some (buildResultsMessage exampleKb (asc ''en'') (Some (asc ''healthcare'')) (asc ''overview'')
                      (asc ''x'') 3 3))
   \<and> map cid (cards (buildResultsMessage exampleKb (asc ''en'') (Some (asc ''healthcare'')) (asc ''overview'')
                     (asc ''x'') 3 3)) = [asc ''s5'']"
proof -
  have q: "lastQuery browsingState \<noteq> []"
    by (simp add: browsingState_def)
  have p: "pageSize browsingState > 0"
    by (simp add: browsingState_def)
  have "handleAction exampleKb browsingState (Some (act (asc ''MORE_RESULTS'')))
           = Inr (browsingState\<lparr>offset := offset browsingState + pageSize browsingState\<rparr>,
                  Some (buildResultsMessage exampleKb (lang browsingState) (domainId browsingState)
                          (focus browsingState) (lastQuery browsingState)
                          (offset browsingState + pageSize browsingState) (pageSize browsingState)))"
    using more_results_pagination[OF q p, of exampleKb] by blast
  then have "handleAction exampleKb browsingState (Some (act (asc ''MORE_RESULTS'')))
       = Inr (browsingState\<lparr>offset := 3\<rparr>,
              Some (buildResultsMessage exampleKb (asc ''en'') (Some (asc ''healthcare'')) (asc ''overview'')
                      (asc ''x'') 3 3))"
    by (simp add: browsingState_def)
  with q p second_page_example show ?thesis
    by blast
qed

lemma vague_query_no_match:
  "matched (retrieveAllSchemes exampleKb (asc ''q'') None) = []"
  by code_simp

theorem zero_matches_counterexample:
  "lastQuery vagueState \<noteq> []
   \<and> length (matched (retrieveAllSchemes exampleKb (lastQuery vagueState) (domainId vagueState)))
       \<le> offset vagueState + pageSize vagueState
   \<and> handleAction exampleKb vagueState (Some (act (asc ''MORE_RESULTS'')))
       = Inr (vagueState\<lparr>offset := 3\<rparr>,
              Some \<lparr>role = asc ''assistant'', mtext = TextNoMatch False,
                    cards = entryPointsCards exampleKb (asc ''en''),
                    quickReplies = makeQuickReplies ([(asc ''rephrase'', act (asc ''NOOP''))]
                                                     @ baseNavItems @ [endItem])\<rparr>)
   \<and> mtext (noMoreResultsMessage (asc ''en'') None) = TextNoMore False"
  using vague_query_no_match
  by (simp add: handleAction_def Let_def act_def vagueState_def buildResultsMessage_def
                noMoreResultsMessage_def isZh_def)

section \<open>Tokenisation\<close>



















section \<open>Soft domain detection\<close>

lemma softScore_formula:
  "softScore t tokens d
     = 3 * length (filter (includes_js t) (normHints (did d)))
       + length (filter (\<lambda>tok. list_ex (\<lambda>h. includes_js h tok) (normHints (did d))) tokens)
       + (if includes_js t (did d) then 1 else 0)"
  by (simp add: softScore_def Let_def normHints_def foldl_count filter_map comp_def list_ex_iff)

lemma best_fold:
  fixes f :: "'a \<Rightarrow> nat"
  assumes "foldl (\<lambda>best d. let s = f d in if s > snd best then (Some (g d), s) else best) (None, 0) ds
             = (r, m)"
  shows "m = Max (insert 0 (f ` set ds))
         \<and> (r = None \<longrightarrow> m = 0)
         \<and> (\<forall>i. r = Some i \<longrightarrow>
               0 < m \<and> (\<exists>pre d post. ds = pre @ d # post \<and> i = g d \<and> f d = m
                                       \<and> (\<forall>x \<in> set pre. f x < m)))"
  using assms
proof (induction ds arbitrary: r m rule: rev_induct)
  case Nil
  then show ?case by simp
next
  case (snoc x xs)
  obtain r0 m0 where prev:
    "foldl (\<lambda>best d. let s = f d in if s > snd best then (Some (g d), s) else best) (None, 0) xs = (r0, m0)"
    by (cases "foldl (\<lambda>best d. let s = f d in if s > snd best then (Some (g d), s) else best) (None, 0) xs")
  note ih = snoc.IH[OF prev]
  have m0: "m0 = Max (insert 0 (f ` set xs))"
    using ih by blast
  have le: "f y \<le> m0" if "y \<in> set xs" for y
    unfolding m0 using that by (intro Max_ge) auto
  show ?case
  proof (cases "f x > m0")
    case True
    with snoc.prems prev have rm: "r = Some (g x)" "m = f x"
      by (simp_all add: Let_def)
    have "Max (insert 0 (f ` set (xs @ [x]))) = f x"
    proof (rule Max_eqI)
      show "finite (insert 0 (f ` set (xs @ [x])))" by simp
      show "f x \<in> insert 0 (f ` set (xs @ [x]))" by simp
      fix v assume "v \<in> insert 0 (f ` set (xs @ [x]))"
      then consider "v = 0" | "v = f x" | y where "y \<in> set xs" "v = f y"
        by auto
      then show "v \<le> f x"
      proof cases
        case 3
        then have "v \<le> m0" using le by simp
        with True show ?thesis by simp
      qed simp_all
    qed
    moreover have "\<forall>y \<in> set xs. f y < f x"
      using le True by (auto intro: le_less_trans)
    then have "xs @ [x] = xs @ x # [] \<and> g x = g x \<and> f x = f x \<and> (\<forall>y \<in> set xs. f y < f x)"
      by simp
    then have "\<exists>pre d post. xs @ [x] = pre @ d # post \<and> g x = g d \<and> f d = f x
                              \<and> (\<forall>y \<in> set pre. f y < f x)"
      by blast
    moreover have "0 < f x"
      using True by simp
    ultimately show ?thesis
      using rm by simp
  next
    case False
    with snoc.prems prev have rm: "r = r0" "m = m0"
      by (simp_all add: Let_def)
    have "Max (insert 0 (f ` set (xs @ [x]))) = Max (insert (f x) (insert 0 (f ` set xs)))"
      by (simp add: insert_commute)
    also have "\<dots> = max (f x) m0"
      unfolding m0 by (rule Max_insert) auto
    also have "\<dots> = m0"
      using False by simp
    finally have mx: "m = Max (insert 0 (f ` set (xs @ [x])))"
      using rm by simp
    have "\<exists>pre d post. xs @ [x] = pre @ d # post \<and> i = g d \<and> f d = m \<and> (\<forall>y \<in> set pre. f y < m)"
      if "r = Some i" for i
    proof -
      from that rm ih obtain pre d post where
        "xs = pre @ d # post" "i = g d" "f d = m0" "\<forall>y \<in> set pre. f y < m0"
        by blast
      then have "xs @ [x] = pre @ d # (post @ [x]) \<and> i = g d \<and> f d = m \<and> (\<forall>y \<in> set pre. f y < m)"
        using rm by simp
      then show ?thesis by blast
    qed
    with mx rm ih show ?thesis
      by blast
  qed
qed

text \<open>
  C7 (as amended). For every input text (also one on which hard detection succeeds), with
  \<open>t\<close> the normalised lower-cased text and \<open>tokens\<close> its tokens, the soft classifier gives
  each domain the score: 3 for each hint phrase of the domain whose normalised lower-cased
  form is a substring of \<open>t\<close>, plus 1 for each token that is a substring of the normalised
  lower-cased form of some hint phrase of the domain, plus 1 if \<open>t\<close> contains the domain's
  identifier. It returns the first domain, in the fixed order, of highest score when that
  score is at least 3, and null when every domain scores below 3.
\<close>

theorem softGuessDomainId_scores:
  fixes raw
  defines "t \<equiv> toLowerCase (normalizeText raw)"
  defines "tokens \<equiv> tokenize t"
  defines "score \<equiv> \<lambda>d. 3 * length (filter (includes_js t) (normHints (did d)))
                       + length (filter (\<lambda>tok. list_ex (\<lambda>h. includes_js h tok) (normHints (did d))) tokens)
                       + (if includes_js t (did d) then 1 else 0)"
  shows "(\<forall>d. softScore t tokens d = score d)
         \<and> (case softGuessDomainId raw of
               None \<Rightarrow> \<forall>d \<in> set DOMAIN. score d < 3
             | Some i \<Rightarrow> \<exists>pre d post. DOMAIN = pre @ d # post \<and> i = did d \<and> 3 \<le> score d
                                      \<and> (\<forall>x \<in> set pre. score x < score d)
                                      \<and> (\<forall>x \<in> set post. score x \<le> score d))"
proof -
  have sc: "softScore t tokens d = score d" for d
    by (simp add: score_def softScore_formula)
  obtain r m where best: "softBest t tokens DOMAIN = (r, m)"
    by (cases "softBest t tokens DOMAIN")
  then have "foldl (\<lambda>best d. let s = score d in if s > snd best then (Some (did d), s) else best)
               (None, 0) DOMAIN = (r, m)"
    by (simp add: softBest_def sc)
  from best_fold[OF this]
  have mx: "m = Max (insert 0 (score ` set DOMAIN))"
    and none: "r = None \<Longrightarrow> m = 0"
    and some: "\<And>i. r = Some i \<Longrightarrow>
                 \<exists>pre d post. DOMAIN = pre @ d # post \<and> i = did d \<and> score d = m
                               \<and> (\<forall>x \<in> set pre. score x < m)"
    by blast+
  have le: "score d \<le> m" if "d \<in> set DOMAIN" for d
    unfolding mx using that by (intro Max_ge) auto
  have res: "softGuessDomainId raw = (if m \<ge> 3 then r else None)"
    using best by (simp add: softGuessDomainId_def Let_def t_def tokens_def)
  show ?thesis
  proof (cases "m \<ge> 3")
    case True
    then obtain i where i: "r = Some i"
      using none by (cases r) auto
    from some[OF i] obtain pre d post where
      d: "DOMAIN = pre @ d # post" "i = did d" "score d = m" "\<forall>x \<in> set pre. score x < m"
      by blast
    have "set post \<subseteq> set DOMAIN"
      by (subst d(1)) auto
    then have "\<forall>x \<in> set post. score x \<le> score d"
      using le d(3) by auto
    with d True have "\<exists>pre d post. DOMAIN = pre @ d # post \<and> i = did d \<and> 3 \<le> score d
                                      \<and> (\<forall>x \<in> set pre. score x < score d)
                                      \<and> (\<forall>x \<in> set post. score x \<le> score d)"
      by blast
    with sc res True i show ?thesis
      by simp
  next
    case False
    then have "\<forall>d \<in> set DOMAIN. score d < 3"
      using le by fastforce
    with sc res False show ?thesis
      by simp
  qed
qed

lemma normHints_financial:
  "normHints (asc ''financial'')
     = [asc ''financial aid'', asc ''comcare'', asc ''gstv'', asc ''assurance'', asc ''cdc'',
        asc ''workfare'', asc ''wis'', asc ''cash'', asc ''bills'']"
  by code_simp

lemma normHints_housing:
  "normHints (asc ''housing'')
     = [asc ''housing'', asc ''rent'', asc ''rental'', asc ''hdb'', asc ''irh'', asc ''pphs'',
        asc ''housing'', asc ''housing'', asc ''housing'']"
  by code_simp

lemma normHints_healthcare:
  "normHints (asc ''healthcare'')
     = [asc ''medical'', asc ''medical'', asc ''medical'', asc ''medical'', asc ''medical'',
        asc ''medical'', asc ''medical'', asc ''hospital bill'', asc ''medical'']"
  by code_simp

lemma normHints_seniors:
  "normHints (asc ''seniors'')
     = [asc ''seniors'', asc ''seniors'', asc ''seniors'', asc ''aic'', asc ''silver support'']"
  by code_simp

lemma normHints_disability:
  "normHints (asc ''disability'')
     = [asc ''disability'', asc ''disability'', asc ''disability'', asc ''disability'', asc ''atf'',
        asc ''eec'']"
  by code_simp

lemma normHints_legal:
  "normHints (asc ''legal'')
     = [asc ''legal'', asc ''lab'', asc ''legal'', asc ''legal'', asc ''legal'', asc ''legal'']"
  by code_simp

lemma normHints_mental:
  "normHints (asc ''mental'')
     = [asc ''mental medical'', asc ''mindline'', asc ''1771'', asc ''mental health'',
        asc ''mental health'', asc ''mental health'', asc ''mental health'']"
  by code_simp

text \<open>The same tables and the example texts with the literals written as code units,
  for evaluation by the simplifier.\<close>

lemmas normHints_units =
  normHints_financial[simplified asc_def, simplified]
  normHints_housing[simplified asc_def, simplified]
  normHints_healthcare[simplified asc_def, simplified]
  normHints_seniors[simplified asc_def, simplified]
  normHints_disability[simplified asc_def, simplified]
  normHints_legal[simplified asc_def, simplified]
  normHints_mental[simplified asc_def, simplified]

lemma softGuessDomainId_unfold:
  "softGuessDomainId raw
     = (let t = toLowerCase (normalizeText raw);
            tokens = tokenize t;
            best = foldl (\<lambda>best d.
                      let s = 3 * length (filter (includes_js t) (normHints (did d)))
                              + length (filter (\<lambda>tok. list_ex (\<lambda>h. includes_js h tok) (normHints (did d))) tokens)
                              + (if includes_js t (did d) then 1 else 0)
                      in if s > snd best then (Some (did d), s) else best) (None, 0) DOMAIN
        in if snd best \<ge> 3 then fst best else None)"
  by (simp add: softGuessDomainId_def softBest_def softScore_formula)

lemma healthy_text:
  "toLowerCase (normalizeText (asc ''healthy'')) = asc ''healthy''"
  "tokenize (asc ''healthy'') = [asc ''healthy'']"
  "detectDomainIdFromText (asc ''healthy'') = None"
  "includes_js (toLowerCase (normalizeText (asc ''healthy''))) (asc ''health'')"
  "asc ''health'' \<in> set (hintsOf (asc ''healthcare''))"
  by code_simp+

lemmas healthy_units = healthy_text(1,2)[simplified asc_def, simplified]

theorem healthy_counterexample:
  "detectDomainIdFromText (asc ''healthy'') = None
   \<and> asc ''health'' \<in> set (hintsOf (asc ''healthcare''))
   \<and> includes_js (toLowerCase (normalizeText (asc ''healthy''))) (asc ''health'')
   \<and> softGuessDomainId (asc ''healthy'') = None"
proof -
  have "softGuessDomainId (asc ''healthy'') = None"
    unfolding softGuessDomainId_unfold
    by (simp add: asc_def healthy_units DOMAIN_def normHints_units Let_def)
  with healthy_text show ?thesis
    by blast
qed

lemma rent_text:
  "toLowerCase (normalizeText (asc ''rent'')) = asc ''rent''"
  "tokenize (asc ''rent'') = [asc ''rent'']"
  by code_simp+

lemmas rent_units = rent_text[simplified asc_def, simplified]

theorem softGuessDomainId_scores_witness:
  "softScore (toLowerCase (normalizeText (asc ''rent'')))
             (tokenize (toLowerCase (normalizeText (asc ''rent'')))) (DOMAIN ! 1) = 4
   \<and> softGuessDomainId (asc ''rent'') = Some (asc ''housing'')"
proof -
  have "softScore (toLowerCase (normalizeText (asc ''rent'')))
                  (tokenize (toLowerCase (normalizeText (asc ''rent'')))) (DOMAIN ! 1)
          = 3 * length (filter (includes_js (toLowerCase (normalizeText (asc ''rent''))))
                          (normHints (did (DOMAIN ! 1))))
            + length (filter (\<lambda>tok. list_ex (\<lambda>h. includes_js h tok) (normHints (did (DOMAIN ! 1))))
                        (tokenize (toLowerCase (normalizeText (asc ''rent'')))))
            + (if includes_js (toLowerCase (normalizeText (asc ''rent''))) (did (DOMAIN ! 1)) then 1 else 0)"
    using softGuessDomainId_scores[of "asc ''rent''"] by blast
  also have "\<dots> = 4"
    by (simp add: asc_def rent_units DOMAIN_def normHints_units)
  finally have a: "softScore (toLowerCase (normalizeText (asc ''rent'')))
                     (tokenize (toLowerCase (normalizeText (asc ''rent'')))) (DOMAIN ! 1) = 4" .
  have "softGuessDomainId (asc ''rent'') = Some (asc ''housing'')"
    unfolding softGuessDomainId_unfold
    by (simp add: asc_def rent_units DOMAIN_def normHints_units Let_def)
  with a show ?thesis
    by blast
qed

end
